theory Spec2Isabelle
  imports Main "HOL-Library.Word"
begin

unbundle bit_operations_syntax

section \<open>Data model (src/types)\<close>

text \<open>
  Satoshi amounts, fee rates, nonces and indices are JavaScript numbers in the source.
  They are modelled as \<^typ>\<open>int\<close>: whole numbers inside the range where JavaScript
  arithmetic is exact (\<open>exact_range\<close> below states the range for a simple payment).
  Optional fields (\<open>feeRate?\<close>, \<open>network?\<close>) are options, with
  \<open>None\<close> for \<open>undefined\<close>. An address is the byte sequence of its UTF-8 encoding
  (\<^typ>\<open>string\<close> is a list of bytes), so \<open>startsWith\<close> on an ASCII literal and
  \<open>TextEncoder().encode\<close> read the same list.
\<close>

type_synonym bytes = "8 word list"

datatype Network = mainnet | testnet | testnet4

text \<open>
  The error classes of the source. \<open>Error\<close> stands for any exception that is not one
  of the wallet's own classes (thrown by the @scure libraries or by the runtime).
\<close>

datatype error =
    ValidationError string
  | TransactionError string
  | CryptographyError string
  | Error string

fun is_ValidationError :: "error \<Rightarrow> bool" where
  "is_ValidationError (ValidationError _) = True"
| "is_ValidationError _ = False"

fun is_TransactionError :: "error \<Rightarrow> bool" where
  "is_TransactionError (TransactionError _) = True"
| "is_TransactionError _ = False"

fun is_CryptographyError :: "error \<Rightarrow> bool" where
  "is_CryptographyError (CryptographyError _) = True"
| "is_CryptographyError _ = False"

record UTXO =
  utxo_txid :: string
  utxo_vout :: int
  utxo_amount :: int
  utxo_address :: string

record Output =
  out_address :: string
  out_amount :: int

record MiningData =
  md_hash :: string
  md_nonce :: int

record MiningTxParams =
  m_utxo :: UTXO
  m_miningData :: MiningData
  m_changeAddress :: string
  m_network :: "Network option"
  m_feeRate :: "int option"

record SimpleTxParams =
  s_utxos :: "UTXO list"
  s_outputs :: "Output list"
  s_changeAddress :: string
  s_network :: "Network option"
  s_feeRate :: "int option"

record SignedTransaction =
  st_txid :: string
  st_hex :: string
  st_size :: int
  st_vsize :: int
  st_fee :: int

record TransactionResult =
  tr_success :: bool
  tr_txid :: "string option"
  tr_hex :: "string option"
  tr_error :: "string option"
  tr_size :: "int option"
  tr_vsize :: "int option"
  tr_fee :: "int option"

section \<open>Constants (src/constants)\<close>

definition MIN_FEE_RATE :: int where "MIN_FEE_RATE = 1"
definition DEFAULT_FEE_RATE :: int where "DEFAULT_FEE_RATE = 10"
definition MAX_FEE_RATE :: int where "MAX_FEE_RATE = 1000"
definition DUST_THRESHOLD :: int where "DUST_THRESHOLD = 546"
definition MIN_UTXO_AMOUNT :: int where "MIN_UTXO_AMOUNT = 1000"
definition MAX_OP_RETURN_SIZE :: nat where "MAX_OP_RETURN_SIZE = 80"
definition DEFAULT_NETWORK :: Network where "DEFAULT_NETWORK = testnet"

definition ENTROPY_BITS_12 :: nat where "ENTROPY_BITS_12 = 128"
definition ENTROPY_BITS_24 :: nat where "ENTROPY_BITS_24 = 256"
definition DEFAULT_WORD_COUNT :: int where "DEFAULT_WORD_COUNT = 12"
definition SUPPORTED_WORD_COUNTS :: "int list" where
  "SUPPORTED_WORD_COUNTS = [12, 15, 18, 21, 24]"

section \<open>The transaction object and the @scure interface\<close>

text \<open>
  \<open>btc.Transaction\<close> is an ordered list of inputs and an ordered list of outputs;
  \<open>addInput\<close> and \<open>addOutput\<close> append one element or throw. The unsigned transaction is
  handed from the builder to the signer as the hex of its PSBT serialisation; that blob
  is identified here with the transaction it encodes (\<open>toPSBT\<close> and \<open>fromPSBT\<close> of
  the library are inverse to each other), and only whether the serialisation succeeds
  is left to the library.
\<close>

record TxInput =
  in_txid :: "bytes"
  in_index :: int
  in_witnessUtxo :: "(bytes \<times> int) option"

record TxOutput =
  to_script :: "bytes"
  to_amount :: int

record Transaction =
  tx_inputs :: "TxInput list"
  tx_outputs :: "TxOutput list"

type_synonym PSBTHex = Transaction

text \<open>
  The library functions the wallet calls but does not define. Each one is a parameter of
  the model; \<open>None\<close> or \<open>False\<close> means that the call throws. Every theorem below that
  mentions a library \<open>L\<close> holds for all of them.
  \<^item> \<open>hex_decode\<close>, \<open>hex_encode\<close>: \<open>hex\<close> of @scure/base;
  \<^item> \<open>taproot_tweak\<close>: the 32-byte output key that \<open>btc.p2tr\<close> computes from an
    internal key (BIP341 tweak), or a throw when the key is no curve point;
  \<^item> \<open>p2wpkh\<close>, \<open>p2pkh\<close>: the script of \<open>btc.p2wpkh(bytes)\<close> and of
    \<open>btc.p2pkh(bytes)\<close>, or a throw when the library does not take the bytes for a
    public key;
  \<^item> \<open>script_encode_op_return\<close>: \<open>btc.Script.encode([OP.RETURN, data])\<close>;
  \<^item> \<open>addInput_ok\<close>, \<open>addOutput_ok\<close>, \<open>toPSBT_ok\<close>: the validation inside
    \<open>Transaction.addInput\<close>, \<open>addOutput\<close>, \<open>toPSBT\<close>;
  \<^item> \<open>sign_finalize_extract\<close>: \<open>tx.sign(key); tx.finalize(); tx.extract()\<close>,
    the raw bytes of the finalized transaction;
  \<^item> \<open>raw_tx_id\<close>: \<open>btc.Transaction.fromRaw(bytes).id\<close>;
  \<^item> \<open>bip39_validate\<close>, \<open>bip39_generate\<close>: \<open>validateMnemonic\<close> and
    \<open>generateMnemonic(wordlist, strength)\<close> of @scure/bip39;
  \<^item> \<open>hd_derive\<close>: \<open>mnemonicToSeed\<close>, \<open>HDKey.fromMasterSeed\<close> and the chain of
    \<open>deriveChild\<close> calls for a list of child indices, giving the private key and the
    compressed public key of the leaf;
  \<^item> \<open>hd_derive_path\<close>: the same with \<open>HDKey.derive(path)\<close> for a list of path
    strings, as the transaction signer calls it.
\<close>

record scure =
  hex_decode :: "string \<Rightarrow> bytes option"
  hex_encode :: "bytes \<Rightarrow> string"
  taproot_tweak :: "bytes \<Rightarrow> bytes option"
  p2wpkh :: "bytes \<Rightarrow> bytes option"
  p2pkh :: "bytes \<Rightarrow> bytes option"
  script_encode_op_return :: "bytes \<Rightarrow> bytes option"
  addInput_ok :: "TxInput \<Rightarrow> bool"
  addOutput_ok :: "TxOutput \<Rightarrow> bool"
  toPSBT_ok :: "Transaction \<Rightarrow> bool"
  sign_finalize_extract :: "Transaction \<Rightarrow> bytes \<Rightarrow> bytes option"
  raw_tx_id :: "bytes \<Rightarrow> string option"
  bip39_validate :: "string \<Rightarrow> bool"
  bip39_generate :: "nat \<Rightarrow> string option"
  hd_derive :: "string \<Rightarrow> int list \<Rightarrow> (bytes option \<times> bytes option) option"
  hd_derive_path :: "string \<Rightarrow> string list \<Rightarrow> (bytes option \<times> bytes option) option"

text \<open>Sequencing of fallible steps: the first throw ends the computation.\<close>

definition bindE :: "error + 'a \<Rightarrow> ('a \<Rightarrow> error + 'b) \<Rightarrow> error + 'b" where
  "bindE m f = (case m of Inl e \<Rightarrow> Inl e | Inr x \<Rightarrow> f x)"

definition lib_call :: "'a option \<Rightarrow> error + 'a" where
  "lib_call r = (case r of None \<Rightarrow> Inl (Error ''library error'') | Some x \<Rightarrow> Inr x)"

definition addInput :: "scure \<Rightarrow> Transaction \<Rightarrow> TxInput \<Rightarrow> error + Transaction" where
  "addInput L tx i =
     (if addInput_ok L i then Inr (tx\<lparr>tx_inputs := tx_inputs tx @ [i]\<rparr>)
      else Inl (Error ''addInput''))"

definition addOutput :: "scure \<Rightarrow> Transaction \<Rightarrow> TxOutput \<Rightarrow> error + Transaction" where
  "addOutput L tx out =
     (if addOutput_ok L out then Inr (tx\<lparr>tx_outputs := tx_outputs tx @ [out]\<rparr>)
      else Inl (Error ''addOutput''))"

definition toPSBT :: "scure \<Rightarrow> Transaction \<Rightarrow> error + PSBTHex" where
  "toPSBT L tx = (if toPSBT_ok L tx then Inr tx else Inl (Error ''toPSBT''))"

definition new_Transaction :: Transaction where
  "new_Transaction = \<lparr>tx_inputs = [], tx_outputs = []\<rparr>"

section \<open>TransactionBuilder (src/transaction/builder.ts)\<close>

subsection \<open>createScriptPubKey\<close>

definition startsWith :: "string \<Rightarrow> string \<Rightarrow> bool" where
  "startsWith s p = (take (length p) s = p)"

definition utf8 :: "string \<Rightarrow> bytes" where
  "utf8 s = map (\<lambda>c. of_char c) s"

text \<open>\<open>new Uint8Array(n)\<close> followed by \<open>set(bytes.slice(0, n))\<close>: cut and zero-fill.\<close>

definition paddedHash :: "nat \<Rightarrow> bytes \<Rightarrow> bytes" where
  "paddedHash n b = take n b @ replicate (n - length (take n b)) 0"

text \<open>The script of \<open>btc.p2tr(key)\<close>: OP_1 and the 32-byte output key.\<close>

definition p2tr_script :: "scure \<Rightarrow> bytes \<Rightarrow> bytes option" where
  "p2tr_script L k = map_option (\<lambda>q. [0x51, 0x20] @ q) (taproot_tweak L k)"

text \<open>The \<open>catch\<close> clause of \<open>createScriptPubKey\<close>: whatever one of the three payment
  helpers throws becomes a \<open>ValidationError\<close> that names the address.\<close>

definition script_or_ValidationError :: "string \<Rightarrow> bytes option \<Rightarrow> error + bytes" where
  "script_or_ValidationError address r =
     (case r of
        Some s \<Rightarrow> Inr s
      | None \<Rightarrow> Inl (ValidationError (''Failed to create script for address '' @ address)))"

definition createScriptPubKey :: "scure \<Rightarrow> string \<Rightarrow> Network \<Rightarrow> error + bytes" where
  "createScriptPubKey L address network0 =
     (if startsWith address ''bc1p'' \<or> startsWith address ''tb1p'' then
        script_or_ValidationError address (p2tr_script L (paddedHash 32 (utf8 address)))
      else if startsWith address ''bc1q'' \<or> startsWith address ''tb1q'' then
        script_or_ValidationError address (p2wpkh L (paddedHash 20 (utf8 address)))
      else script_or_ValidationError address (p2pkh L (paddedHash 20 (utf8 address))))"

subsection \<open>estimateTransactionSize\<close>

definition estimateTransactionSize :: "int \<Rightarrow> int \<Rightarrow> int" where
  "estimateTransactionSize inputs outputs = 10 + inputs * 57 + outputs * 43"

subsection \<open>Parameter validation\<close>

text \<open>
  \<open>!x\<close> on a string is true for the empty string, on a number for 0; the \<open>typeof\<close>
  tests are decided by the types. \<open>feeRate && (...)\<close> is falsy for an absent fee
  rate and for 0.
\<close>

definition invalid_utxo_format :: "UTXO \<Rightarrow> bool" where
  "invalid_utxo_format u =
     (utxo_txid u = [] \<or> utxo_amount u = 0 \<or> utxo_address u = [])"

definition feeRate_rejected :: "int option \<Rightarrow> bool" where
  "feeRate_rejected fr =
     (case fr of None \<Rightarrow> False
      | Some r \<Rightarrow> r \<noteq> 0 \<and> (r < MIN_FEE_RATE \<or> r > MAX_FEE_RATE))"

definition validateMiningParams :: "MiningTxParams \<Rightarrow> error + unit" where
  "validateMiningParams params =
     (let utxo = m_utxo params; miningData = m_miningData params in
      if invalid_utxo_format utxo then Inl (ValidationError ''Invalid UTXO format'')
      else if utxo_amount utxo < MIN_UTXO_AMOUNT then
        Inl (ValidationError ''UTXO amount below minimum'')
      else if md_hash miningData = [] then
        Inl (ValidationError ''Invalid mining data format'')
      else if length (md_hash miningData) < 32 then
        Inl (ValidationError ''Mining hash too short (minimum 32 hex characters)'')
      else if md_nonce miningData < 0 then
        Inl (ValidationError ''Mining nonce must be non-negative'')
      else if m_changeAddress params = [] then
        Inl (ValidationError ''Invalid change address'')
      else if feeRate_rejected (m_feeRate params) then
        Inl (ValidationError ''Fee rate outside valid range'')
      else Inr ())"

fun validate_outputs :: "Output list \<Rightarrow> error + unit" where
  "validate_outputs [] = Inr ()"
| "validate_outputs (output # rest) =
     (if out_address output = [] \<or> out_amount output \<le> 0 then
        Inl (ValidationError ''Invalid output format'')
      else if out_amount output < DUST_THRESHOLD then
        Inl (ValidationError ''Output amount below dust threshold'')
      else validate_outputs rest)"

definition validateSimpleParams :: "SimpleTxParams \<Rightarrow> error + unit" where
  "validateSimpleParams params =
     (if s_utxos params = [] then Inl (ValidationError ''At least one UTXO is required'')
      else if \<exists>u \<in> set (s_utxos params). invalid_utxo_format u then
        Inl (ValidationError ''Invalid UTXO format'')
      else if s_outputs params = [] then
        Inl (ValidationError ''At least one output is required'')
      else bindE (validate_outputs (s_outputs params)) (\<lambda>_.
        if s_changeAddress params = [] then Inl (ValidationError ''Invalid change address'')
        else if feeRate_rejected (s_feeRate params) then
          Inl (ValidationError ''Fee rate outside valid range'')
        else Inr ()))"

subsection \<open>createMiningOpReturn\<close>

definition hex_digit :: "nat \<Rightarrow> char" where
  "hex_digit d = ''0123456789abcdef'' ! d"

fun nat_toString16 :: "nat \<Rightarrow> string" where
  "nat_toString16 n =
     (if n < 16 then [hex_digit n] else nat_toString16 (n div 16) @ [hex_digit (n mod 16)])"

declare nat_toString16.simps [simp del]

definition toString16 :: "int \<Rightarrow> string" where
  "toString16 n = (if n < 0 then CHR ''-'' # nat_toString16 (nat (- n)) else nat_toString16 (nat n))"

definition padStart :: "nat \<Rightarrow> char \<Rightarrow> string \<Rightarrow> string" where
  "padStart n c s = replicate (n - length s) c @ s"

definition createMiningOpReturn :: "scure \<Rightarrow> MiningData \<Rightarrow> error + bytes" where
  "createMiningOpReturn L miningData =
     (let hashPrefix = take 32 (md_hash miningData);
          nonceHex = padStart 8 CHR ''0'' (toString16 (md_nonce miningData));
          combinedHex = hashPrefix @ nonceHex
      in if length combinedHex > 2 * MAX_OP_RETURN_SIZE then
           Inl (TransactionError ''OP_RETURN data too large'')
         else lib_call (hex_decode L combinedHex))"

subsection \<open>The catch clause of both entry points\<close>

text \<open>
  \<open>ValidationError\<close> and \<open>TransactionError\<close> are rethrown as they are; anything
  else becomes a \<open>TransactionError\<close> with the given message.
\<close>

definition rethrow :: "string \<Rightarrow> error + 'a \<Rightarrow> error + 'a" where
  "rethrow msg r =
     (case r of
        Inr x \<Rightarrow> Inr x
      | Inl (ValidationError m) \<Rightarrow> Inl (ValidationError m)
      | Inl (TransactionError m) \<Rightarrow> Inl (TransactionError m)
      | Inl _ \<Rightarrow> Inl (TransactionError msg))"

subsection \<open>createMiningTransaction\<close>

definition effective_network :: "Network \<Rightarrow> Network option \<Rightarrow> Network" where
  "effective_network this_network n = (case n of None \<Rightarrow> this_network | Some x \<Rightarrow> x)"

definition effective_feeRate :: "int option \<Rightarrow> int" where
  "effective_feeRate fr = (case fr of None \<Rightarrow> DEFAULT_FEE_RATE | Some r \<Rightarrow> r)"

definition miningChangeAmount :: "MiningTxParams \<Rightarrow> int" where
  "miningChangeAmount params =
     (let estimatedSize = estimateTransactionSize 1 2;
          fee = effective_feeRate (m_feeRate params) * estimatedSize
      in utxo_amount (m_utxo params) - fee)"

text \<open>
  The body of the \<open>try\<close> block up to, but without, the final \<open>tx.toPSBT()\<close>: the
  transaction object as it stands when the builder serialises it. \<open>this_network\<close> is
  the network the builder was constructed with. \<open>getNetworkConfig\<close> throws for a
  network outside the three of \<^typ>\<open>Network\<close> only, so it has no branch here.
\<close>

definition buildMiningTx :: "scure \<Rightarrow> Network \<Rightarrow> MiningTxParams \<Rightarrow> error + Transaction" where
  "buildMiningTx L this_network params =
     bindE (validateMiningParams params) (\<lambda>_.
       let utxo = m_utxo params;
           network = effective_network this_network (m_network params)
       in
       bindE (lib_call (hex_decode L (utxo_txid utxo))) (\<lambda>h.
       bindE (createScriptPubKey L (utxo_address utxo) network) (\<lambda>script.
       bindE (addInput L new_Transaction
                \<lparr>in_txid = rev h, in_index = utxo_vout utxo,
                 in_witnessUtxo = Some (script, utxo_amount utxo)\<rparr>) (\<lambda>tx1.
       bindE (createMiningOpReturn L (m_miningData params)) (\<lambda>opReturnData.
       bindE (lib_call (script_encode_op_return L opReturnData)) (\<lambda>opReturnScript.
       bindE (addOutput L tx1 \<lparr>to_script = opReturnScript, to_amount = 0\<rparr>) (\<lambda>tx2.
         let changeAmount = miningChangeAmount params in
         if changeAmount < DUST_THRESHOLD then
           Inl (TransactionError ''Change amount below dust threshold'')
         else
           bindE (createScriptPubKey L (m_changeAddress params) network) (\<lambda>changeScript.
             addOutput L tx2 \<lparr>to_script = changeScript, to_amount = changeAmount\<rparr>))))))))"

definition createMiningTransaction :: "scure \<Rightarrow> Network \<Rightarrow> MiningTxParams \<Rightarrow> error + PSBTHex" where
  "createMiningTransaction L this_network params =
     rethrow ''Failed to create mining transaction''
       (bindE (buildMiningTx L this_network params) (toPSBT L))"

subsection \<open>createSimpleTransaction\<close>

fun addInputs :: "scure \<Rightarrow> Network \<Rightarrow> Transaction \<Rightarrow> UTXO list \<Rightarrow> error + Transaction" where
  "addInputs L network tx [] = Inr tx"
| "addInputs L network tx (utxo # rest) =
     bindE (lib_call (hex_decode L (utxo_txid utxo))) (\<lambda>h.
     bindE (createScriptPubKey L (utxo_address utxo) network) (\<lambda>script.
     bindE (addInput L tx
              \<lparr>in_txid = rev h, in_index = utxo_vout utxo,
               in_witnessUtxo = Some (script, utxo_amount utxo)\<rparr>) (\<lambda>tx'.
       addInputs L network tx' rest)))"

fun addOutputs :: "scure \<Rightarrow> Network \<Rightarrow> Transaction \<Rightarrow> Output list \<Rightarrow> error + Transaction" where
  "addOutputs L network tx [] = Inr tx"
| "addOutputs L network tx (output # rest) =
     bindE (createScriptPubKey L (out_address output) network) (\<lambda>script.
     bindE (addOutput L tx \<lparr>to_script = script, to_amount = out_amount output\<rparr>) (\<lambda>tx'.
       addOutputs L network tx' rest))"

definition totalInput :: "SimpleTxParams \<Rightarrow> int" where
  "totalInput params = foldl (\<lambda>sum utxo. sum + utxo_amount utxo) 0 (s_utxos params)"

definition totalOutput :: "SimpleTxParams \<Rightarrow> int" where
  "totalOutput params = foldl (\<lambda>sum output. sum + out_amount output) 0 (s_outputs params)"

definition simpleFee :: "SimpleTxParams \<Rightarrow> int" where
  "simpleFee params =
     (let estimatedSize =
            estimateTransactionSize (int (length (s_utxos params)))
              (int (length (s_outputs params)) + 1)
      in effective_feeRate (s_feeRate params) * estimatedSize)"

definition simpleChangeAmount :: "SimpleTxParams \<Rightarrow> int" where
  "simpleChangeAmount params = totalInput params - totalOutput params - simpleFee params"

definition buildSimpleTx :: "scure \<Rightarrow> Network \<Rightarrow> SimpleTxParams \<Rightarrow> error + Transaction" where
  "buildSimpleTx L this_network params =
     bindE (validateSimpleParams params) (\<lambda>_.
       let network = effective_network this_network (s_network params) in
       bindE (addInputs L network new_Transaction (s_utxos params)) (\<lambda>tx1.
       bindE (addOutputs L network tx1 (s_outputs params)) (\<lambda>tx2.
         let changeAmount = simpleChangeAmount params in
         if changeAmount > DUST_THRESHOLD then
           bindE (createScriptPubKey L (s_changeAddress params) network) (\<lambda>changeScript.
             addOutput L tx2 \<lparr>to_script = changeScript, to_amount = changeAmount\<rparr>)
         else if changeAmount < 0 then
           Inl (TransactionError ''Insufficient funds for transaction'')
         else Inr tx2)))"

definition createSimpleTransaction :: "scure \<Rightarrow> Network \<Rightarrow> SimpleTxParams \<Rightarrow> error + PSBTHex" where
  "createSimpleTransaction L this_network params =
     rethrow ''Failed to create simple transaction''
       (bindE (buildSimpleTx L this_network params) (toPSBT L))"

section \<open>Taproot addresses: bech32m (BIP350), as @scure/base encodes them\<close>

text \<open>
  \<open>btc.p2tr(key, undefined, network).address\<close> is the bech32m encoding, under the
  network's human-readable prefix, of witness version 1 followed by the 32-byte output
  key regrouped into 5-bit words. The encoder belongs to @scure/base; it is written out
  here after BIP173/BIP350 so that the shape of a generated address can be computed.
\<close>

definition BECH_ALPHABET :: string where
  "BECH_ALPHABET = ''qpzry9x8gf2tvdw0s3jn54khce6mua7l''"

definition be_nat :: "bytes \<Rightarrow> nat" where
  "be_nat b = foldl (\<lambda>a x. a * 256 + unat x) 0 b"

text \<open>The \<open>k\<close> base-32 digits of \<open>n\<close>, most significant first.\<close>

definition digits32 :: "nat \<Rightarrow> nat \<Rightarrow> nat list" where
  "digits32 k n = map (\<lambda>i. (n div 32 ^ (k - 1 - i)) mod 32) [0..<k]"

text \<open>\<open>bech32m.toWords\<close>: regroup 8-bit bytes into 5-bit words, zero bits appended.\<close>

definition toWords :: "bytes \<Rightarrow> nat list" where
  "toWords b =
     (let bits = 8 * length b; k = (bits + 4) div 5
      in digits32 k (be_nat b * 2 ^ (5 * k - bits)))"

definition POLYMOD_GENERATORS :: "nat list" where
  "POLYMOD_GENERATORS = [0x3b6a57b2, 0x26508e6d, 0x1ea119fa, 0x3d4233dd, 0x2a1462b3]"

definition bech32Polymod :: "nat \<Rightarrow> nat" where
  "bech32Polymod pre =
     (let b = pre div 2 ^ 25;
          chk = (pre mod 2 ^ 25) * 32
      in foldl (\<lambda>c i. if odd (b div 2 ^ i) then c XOR (POLYMOD_GENERATORS ! i) else c)
           chk [0..<5])"

definition BECH32M_CONST :: nat where
  "BECH32M_CONST = 0x2bc830a3"

definition bechChecksum :: "string \<Rightarrow> nat list \<Rightarrow> nat list" where
  "bechChecksum prefix ws =
     (let c1 = foldl (\<lambda>chk c. bech32Polymod chk XOR (of_char c div 32)) 1 prefix;
          c2 = bech32Polymod c1;
          c3 = foldl (\<lambda>chk c. bech32Polymod chk XOR (of_char c mod 32)) c2 prefix;
          c4 = foldl (\<lambda>chk v. bech32Polymod chk XOR v) c3 ws;
          c5 = foldl (\<lambda>chk _. bech32Polymod chk) c4 [0..<6::nat];
          c6 = c5 XOR BECH32M_CONST
      in digits32 6 (c6 mod 2 ^ 30))"

definition bech32m_encode :: "string \<Rightarrow> nat list \<Rightarrow> string" where
  "bech32m_encode prefix ws =
     prefix @ ''1'' @ map (\<lambda>w. BECH_ALPHABET ! w) (ws @ bechChecksum prefix ws)"

definition bech32_hrp :: "Network \<Rightarrow> string" where
  "bech32_hrp n = (case n of mainnet \<Rightarrow> ''bc'' | testnet \<Rightarrow> ''tb'' | testnet4 \<Rightarrow> ''tb'')"

definition p2tr_address :: "Network \<Rightarrow> bytes \<Rightarrow> string" where
  "p2tr_address n outputKey = bech32m_encode (bech32_hrp n) (1 # toWords outputKey)"

section \<open>CharmsWallet (src/core/wallet.ts)\<close>

subsection \<open>generateMnemonic\<close>

definition entropyBits :: "int \<Rightarrow> nat" where
  "entropyBits wordCount = (if wordCount = 12 then ENTROPY_BITS_12 else ENTROPY_BITS_24)"

text \<open>The \<open>catch\<close> clause of the wallet's methods turns every exception into a
  \<open>CryptographyError\<close>.\<close>

definition catch_crypto :: "string \<Rightarrow> error + 'a \<Rightarrow> error + 'a" where
  "catch_crypto msg r = (case r of Inr x \<Rightarrow> Inr x | Inl _ \<Rightarrow> Inl (CryptographyError msg))"

text \<open>The caller passes the word count (\<open>DEFAULT_WORD_COUNT\<close> when it is left out).\<close>

definition generateMnemonic :: "scure \<Rightarrow> int \<Rightarrow> error + string" where
  "generateMnemonic L wordCount =
     catch_crypto ''Failed to generate mnemonic''
       (if wordCount \<notin> set SUPPORTED_WORD_COUNTS then
          Inl (ValidationError ''Unsupported word count'')
        else lib_call (bip39_generate L (entropyBits wordCount)))"

text \<open>The number of words of the mnemonic that \<open>generateMnemonic(wordlist, strength)\<close>
  of @scure/bip39 returns (BIP39: entropy plus one checksum bit per 32 bits, 11 bits per
  word).\<close>

definition bip39_word_count :: "nat \<Rightarrow> nat" where
  "bip39_word_count strength = (strength + strength div 32) div 11"

subsection \<open>generateAddress and getAddressData\<close>

record TaprootKeys =
  tk_privateKey :: bytes
  tk_publicKey :: bytes
  tk_xOnlyPubkey :: bytes
  tk_address :: string

definition HARDENED :: int where
  "HARDENED = 0x80000000"

definition bip86_children :: "int \<Rightarrow> int list" where
  "bip86_children index = [86 + HARDENED, 0 + HARDENED, 0 + HARDENED, 0, index]"

text \<open>The common body of \<open>generateAddress\<close>, \<open>getAddressData\<close> and
  \<open>deriveTaprootKeys\<close>, before the \<open>catch\<close> clause.\<close>

definition derive_bundle :: "scure \<Rightarrow> bool \<Rightarrow> string \<Rightarrow> Network \<Rightarrow> int \<Rightarrow> error + TaprootKeys" where
  "derive_bundle L check_mnemonic mnemonic network index =
     (if check_mnemonic \<and> \<not> bip39_validate L mnemonic then
        Inl (ValidationError ''Invalid mnemonic phrase'')
      else
        bindE (lib_call (hd_derive L mnemonic (bip86_children index))) (\<lambda>addressKey.
          case addressKey of
            (Some priv, Some pub) \<Rightarrow>
              let xOnlyPubkey = drop 1 pub in
              bindE (lib_call (taproot_tweak L xOnlyPubkey)) (\<lambda>outputKey.
                let address = p2tr_address network outputKey in
                if address = [] then
                  Inl (CryptographyError ''Failed to generate Taproot address'')
                else Inr \<lparr>tk_privateKey = priv, tk_publicKey = pub,
                          tk_xOnlyPubkey = xOnlyPubkey, tk_address = address\<rparr>)
          | _ \<Rightarrow> Inl (CryptographyError ''Failed to derive private or public key'')))"

definition generateAddress :: "scure \<Rightarrow> string \<Rightarrow> Network \<Rightarrow> int \<Rightarrow> error + string" where
  "generateAddress L mnemonic network index =
     catch_crypto ''Failed to generate address''
       (bindE (derive_bundle L True mnemonic network index) (\<lambda>k. Inr (tk_address k)))"

definition getAddressData :: "scure \<Rightarrow> string \<Rightarrow> Network \<Rightarrow> int \<Rightarrow> error + TaprootKeys" where
  "getAddressData L mnemonic network index =
     catch_crypto ''Failed to get address data''
       (derive_bundle L True mnemonic network index)"

subsection \<open>validateAddress\<close>

definition in_range :: "char \<Rightarrow> char \<Rightarrow> char \<Rightarrow> bool" where
  "in_range lo hi c = ((of_char lo :: nat) \<le> of_char c \<and> (of_char c :: nat) \<le> of_char hi)"

text \<open>The character class \<open>[a-zA-HJ-NP-Z0-9]\<close>.\<close>

definition bech_class :: "char \<Rightarrow> bool" where
  "bech_class c =
     (in_range CHR ''a'' CHR ''z'' c \<or> in_range CHR ''A'' CHR ''H'' c \<or>
      in_range CHR ''J'' CHR ''N'' c \<or> in_range CHR ''P'' CHR ''Z'' c \<or>
      in_range CHR ''0'' CHR ''9'' c)"

text \<open>The character class \<open>[a-km-zA-HJ-NP-Z1-9]\<close>.\<close>

definition base58_class :: "char \<Rightarrow> bool" where
  "base58_class c =
     (in_range CHR ''a'' CHR ''k'' c \<or> in_range CHR ''m'' CHR ''z'' c \<or>
      in_range CHR ''A'' CHR ''H'' c \<or> in_range CHR ''J'' CHR ''N'' c \<or>
      in_range CHR ''P'' CHR ''Z'' c \<or> in_range CHR ''1'' CHR ''9'' c)"

text \<open>\<open>/^<prefix>[class]{n}$/\<close>.\<close>

definition matches_prefixed :: "string \<Rightarrow> nat \<Rightarrow> (char \<Rightarrow> bool) \<Rightarrow> string \<Rightarrow> bool" where
  "matches_prefixed prefix n cls s =
     (take (length prefix) s = prefix \<and> length s = length prefix + n \<and>
      list_all cls (drop (length prefix) s))"

text \<open>\<open>/^[first][a-km-zA-HJ-NP-Z1-9]{25,34}$/\<close>.\<close>

definition matches_legacy :: "string \<Rightarrow> string \<Rightarrow> bool" where
  "matches_legacy first s =
     (case s of [] \<Rightarrow> False
      | c # rest \<Rightarrow> c \<in> set first \<and> 25 \<le> length rest \<and> length rest \<le> 34 \<and>
                    list_all base58_class rest)"

definition MAINNET_P2TR :: "string \<Rightarrow> bool" where
  "MAINNET_P2TR = matches_prefixed ''bc1p'' 58 bech_class"
definition TESTNET_P2TR :: "string \<Rightarrow> bool" where
  "TESTNET_P2TR = matches_prefixed ''tb1p'' 58 bech_class"
definition MAINNET_P2WPKH :: "string \<Rightarrow> bool" where
  "MAINNET_P2WPKH = matches_prefixed ''bc1q'' 38 bech_class"
definition TESTNET_P2WPKH :: "string \<Rightarrow> bool" where
  "TESTNET_P2WPKH = matches_prefixed ''tb1q'' 38 bech_class"
definition LEGACY :: "string \<Rightarrow> bool" where
  "LEGACY = matches_legacy ''13''"
definition TESTNET_LEGACY :: "string \<Rightarrow> bool" where
  "TESTNET_LEGACY = matches_legacy ''mn2''"

datatype AddressType = p2tr | p2wpkh | p2sh | legacy

record AddressValidation =
  av_valid :: bool
  av_error :: "string option"
  av_network :: "Network option"
  av_type :: "AddressType option"

definition valid_as :: "Network \<Rightarrow> AddressType \<Rightarrow> AddressValidation" where
  "valid_as n t = \<lparr>av_valid = True, av_error = None, av_network = Some n, av_type = Some t\<rparr>"

text \<open>The argument \<open>network\<close> is \<open>this.config.network\<close> of the wallet instance.\<close>

definition validateAddress :: "Network \<Rightarrow> string \<Rightarrow> AddressValidation" where
  "validateAddress network address =
     (if network = mainnet \<and> MAINNET_P2TR address then valid_as mainnet p2tr
      else if (network = testnet \<or> network = testnet4) \<and> TESTNET_P2TR address then
        valid_as network p2tr
      else if network = mainnet \<and> MAINNET_P2WPKH address then valid_as mainnet p2wpkh
      else if (network = testnet \<or> network = testnet4) \<and> TESTNET_P2WPKH address then
        valid_as network p2wpkh
      else if network = mainnet \<and> LEGACY address then valid_as mainnet legacy
      else if (network = testnet \<or> network = testnet4) \<and> TESTNET_LEGACY address then
        valid_as network legacy
      else \<lparr>av_valid = False, av_error = Some ''Invalid address format'',
             av_network = None, av_type = None\<rparr>)"

section \<open>AddressWallet (src/core/address-wallet.ts)\<close>

record AddressWallet =
  aw_privateKey :: bytes
  aw_network :: Network
  aw_address :: string
  aw_publicKey :: bytes
  aw_xOnlyPubkey :: bytes

text \<open>\<open>privateKey[i] || 0\<close> reads 0 beyond the end of the array.\<close>

definition derivePublicKey :: "bytes \<Rightarrow> bytes" where
  "derivePublicKey privateKey =
     0x02 # map (\<lambda>i. (if i < length privateKey then privateKey ! i else 0) XOR 0x01) [0..<32]"

definition generateAddressFromPublicKey :: "scure \<Rightarrow> Network \<Rightarrow> bytes \<Rightarrow> error + string" where
  "generateAddressFromPublicKey L network xOnlyPubkey =
     catch_crypto ''Failed to generate address''
       (bindE (lib_call (taproot_tweak L xOnlyPubkey)) (\<lambda>outputKey.
          let address = p2tr_address network outputKey in
          if address = [] then Inl (CryptographyError ''Failed to generate Taproot address'')
          else Inr address))"

text \<open>The constructor. \<open>address || ...\<close> takes the given address unless it is absent
  or empty.\<close>

definition new_AddressWallet :: "scure \<Rightarrow> bytes \<Rightarrow> Network \<Rightarrow> string option \<Rightarrow> error + AddressWallet" where
  "new_AddressWallet L privateKey network address =
     (let publicKey = derivePublicKey privateKey;
          xOnlyPubkey = drop 1 publicKey
      in bindE (case address of
                  Some a \<Rightarrow> if a = [] then generateAddressFromPublicKey L network xOnlyPubkey
                            else Inr a
                | None \<Rightarrow> generateAddressFromPublicKey L network xOnlyPubkey) (\<lambda>a.
           Inr \<lparr>aw_privateKey = privateKey, aw_network = network, aw_address = a,
                aw_publicKey = publicKey, aw_xOnlyPubkey = xOnlyPubkey\<rparr>))"

text \<open>\<open>byte.toString(16).padStart(2, '0')\<close>\<close>

definition byte_hex :: "8 word \<Rightarrow> string" where
  "byte_hex b = padStart 2 CHR ''0'' (nat_toString16 (unat b))"

definition fromPrivateKey :: "scure \<Rightarrow> bytes \<Rightarrow> Network \<Rightarrow> error + AddressWallet" where
  "fromPrivateKey L privateKey network =
     (let addressSuffix = foldl (\<lambda>acc byte. acc @ byte_hex byte) [] (take 8 privateKey);
          prefix = (if network = mainnet then ''bc1p'' else ''tb1p'');
          mockAddress = prefix @ addressSuffix @ replicate (54 - length addressSuffix) CHR ''0''
      in new_AddressWallet L privateKey network (Some mockAddress))"

section \<open>Signing (TransactionSigner in builder.ts, AddressWallet.signPSBT)\<close>

definition calculateFee :: "UTXO \<Rightarrow> Transaction \<Rightarrow> int" where
  "calculateFee utxo tx =
     (let totalOutput = foldl (\<lambda>total output. total + to_amount output) 0 (tx_outputs tx)
      in utxo_amount utxo - totalOutput)"

text \<open>\<open>Math.ceil(txBytes.length * 0.75)\<close>\<close>

definition calculateVirtualSize :: "bytes \<Rightarrow> int" where
  "calculateVirtualSize txBytes = (3 * int (length txBytes) + 3) div 4"

definition calculateTxId :: "scure \<Rightarrow> bytes \<Rightarrow> string" where
  "calculateTxId L txBytes =
     (case raw_tx_id L txBytes of Some i \<Rightarrow> i | None \<Rightarrow> hex_encode L (take 32 txBytes))"

text \<open>\<open>tx.updateInput\<close> validates the merged input as \<open>tx.addInput\<close> does.\<close>

definition updateWitnessUtxo :: "scure \<Rightarrow> Transaction \<Rightarrow> UTXO \<Rightarrow> bytes \<Rightarrow> error + Transaction" where
  "updateWitnessUtxo L tx utxo xOnlyPubkey =
     (case tx_inputs tx of
        [] \<Rightarrow> Inl (TransactionError ''Failed to update witness UTXO'')
      | input # rest \<Rightarrow>
          (case in_witnessUtxo input of
             Some _ \<Rightarrow> Inr tx
           | None \<Rightarrow>
               (case p2tr_script L xOnlyPubkey of
                  None \<Rightarrow> Inl (TransactionError ''Failed to update witness UTXO'')
                | Some script \<Rightarrow>
                    let input' = input\<lparr>in_witnessUtxo := Some (script, utxo_amount utxo)\<rparr> in
                    if addInput_ok L input' then Inr (tx\<lparr>tx_inputs := input' # rest\<rparr>)
                    else Inl (TransactionError ''Failed to update witness UTXO''))))"

text \<open>The steps of \<open>signPSBT\<close> after input validation and key derivation, shared by both
  signers: attach the witness UTXO, sign, finalize, extract, and fill the result.\<close>

definition sign_and_extract :: "scure \<Rightarrow> PSBTHex \<Rightarrow> UTXO \<Rightarrow> bytes \<Rightarrow> bytes \<Rightarrow> error + TransactionResult" where
  "sign_and_extract L psbtHex utxo privateKey xOnlyPubkey =
     bindE (updateWitnessUtxo L psbtHex utxo xOnlyPubkey) (\<lambda>tx.
     bindE (lib_call (sign_finalize_extract L tx privateKey)) (\<lambda>finalTx.
       Inr \<lparr>tr_success = True,
            tr_txid = Some (calculateTxId L finalTx),
            tr_hex = Some (hex_encode L finalTx),
            tr_error = None,
            tr_size = Some (int (length finalTx)),
            tr_vsize = Some (calculateVirtualSize finalTx),
            tr_fee = Some (calculateFee utxo tx)\<rparr>))"

text \<open>The \<open>catch\<close> clause of \<open>signPSBT\<close>: a failure is returned, not thrown.\<close>

definition signing_result :: "error + TransactionResult \<Rightarrow> TransactionResult" where
  "signing_result r =
     (case r of
        Inr res \<Rightarrow> res
      | Inl _ \<Rightarrow> \<lparr>tr_success = False, tr_txid = None, tr_hex = None,
                  tr_error = Some ''Signing failed'', tr_size = None, tr_vsize = None,
                  tr_fee = None\<rparr>)"

text \<open>\<open>x || 0\<close> on an optional number: 0 when absent, and \<open>x\<close> itself otherwise (0 for 0).\<close>

definition or0 :: "int option \<Rightarrow> int" where
  "or0 x = (case x of None \<Rightarrow> 0 | Some v \<Rightarrow> if v = 0 then 0 else v)"

text \<open>The body of both \<open>signTransaction\<close> methods, applied to the result of \<open>signPSBT\<close>.\<close>

definition to_SignedTransaction :: "TransactionResult \<Rightarrow> error + SignedTransaction" where
  "to_SignedTransaction result =
     (case (tr_success result, tr_txid result, tr_hex result) of
        (True, Some txid, Some hx) \<Rightarrow>
          if txid = [] \<or> hx = [] then Inl (TransactionError ''Transaction signing failed'')
          else Inr \<lparr>st_txid = txid, st_hex = hx, st_size = or0 (tr_size result),
                    st_vsize = or0 (tr_vsize result), st_fee = or0 (tr_fee result)\<rparr>
      | _ \<Rightarrow> Inl (TransactionError ''Transaction signing failed''))"

subsection \<open>AddressWallet.signTransaction\<close>

definition AddressWallet_validateSigningInputs :: "AddressWallet \<Rightarrow> PSBTHex \<Rightarrow> UTXO \<Rightarrow> error + unit" where
  "AddressWallet_validateSigningInputs w psbtHex utxo =
     (if invalid_utxo_format utxo then Inl (ValidationError ''Invalid UTXO format'')
      else if utxo_address utxo \<noteq> aw_address w then
        Inl (ValidationError ''UTXO address does not match wallet address'')
      else Inr ())"

definition AddressWallet_signPSBT :: "scure \<Rightarrow> AddressWallet \<Rightarrow> PSBTHex \<Rightarrow> UTXO \<Rightarrow> TransactionResult" where
  "AddressWallet_signPSBT L w psbtHex utxo =
     signing_result
       (bindE (AddressWallet_validateSigningInputs w psbtHex utxo) (\<lambda>_.
          sign_and_extract L psbtHex utxo (aw_privateKey w) (aw_xOnlyPubkey w)))"

definition AddressWallet_signTransaction :: "scure \<Rightarrow> AddressWallet \<Rightarrow> PSBTHex \<Rightarrow> UTXO \<Rightarrow> error + SignedTransaction" where
  "AddressWallet_signTransaction L w psbtHex utxo =
     to_SignedTransaction (AddressWallet_signPSBT L w psbtHex utxo)"

subsection \<open>TransactionSigner.signTransaction\<close>

text \<open>
  The white space of JavaScript (\<open>\s\<close> and \<open>trim\<close>), read on the UTF-8 encoding of
  the string: tab, line feed, vertical tab, form feed, carriage return and space in one
  byte; U+00A0 in two bytes; U+1680, U+2000 to U+200A, U+2028, U+2029, U+202F, U+205F,
  U+3000 and U+FEFF in three. \<open>whitespace_length s\<close> is the number of bytes of the
  white space character that \<open>s\<close> starts with, and 0 when it starts with none.
\<close>

definition whitespace_length :: "string \<Rightarrow> nat" where
  "whitespace_length s =
     (if take 1 s \<in> set [[CHR 0x20], [CHR 0x09], [CHR 0x0A], [CHR 0x0B], [CHR 0x0C], [CHR 0x0D]]
      then 1
      else if take 2 s = [CHR 0xC2, CHR 0xA0] then 2
      else if take 3 s \<in> set [[CHR 0xE1, CHR 0x9A, CHR 0x80],
                               [CHR 0xE2, CHR 0x80, CHR 0xA8],
                               [CHR 0xE2, CHR 0x80, CHR 0xA9],
                               [CHR 0xE2, CHR 0x80, CHR 0xAF],
                               [CHR 0xE2, CHR 0x81, CHR 0x9F],
                               [CHR 0xE3, CHR 0x80, CHR 0x80],
                               [CHR 0xEF, CHR 0xBB, CHR 0xBF]] then 3
      else if take 2 s = [CHR 0xE2, CHR 0x80] \<and> length s \<ge> 3 \<and>
              in_range (CHR 0x80) (CHR 0x8A) (s ! 2) then 3
      else 0)"

function words_acc :: "string \<Rightarrow> string \<Rightarrow> string list" where
  "words_acc cur s =
     (if s = [] then (if cur = [] then [] else [rev cur])
      else if whitespace_length s > 0 then
        (if cur = [] then words_acc [] (drop (whitespace_length s) s)
         else rev cur # words_acc [] (drop (whitespace_length s) s))
      else words_acc (hd s # cur) (tl s))"
  by pat_completeness auto
termination
  by (relation "measure (\<lambda>(cur, s). length s)") auto

declare words_acc.simps [simp del]

text \<open>\<open>mnemonic.trim().split(/\s+/)\<close>; a blank string splits into one empty word.\<close>

definition trim_split :: "string \<Rightarrow> string list" where
  "trim_split s = (case words_acc [] s of [] \<Rightarrow> [[]] | ws \<Rightarrow> ws)"

text \<open>The checks that the PSBT blob is a non-empty hex string hold for every blob that
  encodes a transaction; the checks of the UTXO and of the mnemonic remain.\<close>

definition TransactionSigner_validateSigningInputs :: "PSBTHex \<Rightarrow> UTXO \<Rightarrow> string \<Rightarrow> error + unit" where
  "TransactionSigner_validateSigningInputs psbtHex utxo mnemonic =
     (if invalid_utxo_format utxo then Inl (ValidationError ''Invalid UTXO format'')
      else if mnemonic = [] then Inl (ValidationError ''Invalid mnemonic'')
      else if length (trim_split mnemonic) < 12 \<or> length (trim_split mnemonic) > 24 then
        Inl (ValidationError ''Invalid mnemonic word count'')
      else Inr ())"

text \<open>\<open>index.toString()\<close>: decimal digits.\<close>

fun nat_toString10 :: "nat \<Rightarrow> string" where
  "nat_toString10 n =
     (if n < 10 then [hex_digit n] else nat_toString10 (n div 10) @ [hex_digit (n mod 10)])"

declare nat_toString10.simps [simp del]

definition toString10 :: "int \<Rightarrow> string" where
  "toString10 n = (if n < 0 then CHR ''-'' # nat_toString10 (nat (- n)) else nat_toString10 (nat n))"

definition TransactionSigner_deriveTaprootKeys :: "scure \<Rightarrow> Network \<Rightarrow> string \<Rightarrow> string \<Rightarrow> int \<Rightarrow> error + TaprootKeys" where
  "TransactionSigner_deriveTaprootKeys L this_network mnemonic derivationPath index =
     catch_crypto ''Failed to derive Taproot keys''
       (bindE (lib_call (hd_derive_path L mnemonic [derivationPath, ''0'', toString10 index]))
          (\<lambda>addressKey.
          case addressKey of
            (Some priv, Some pub) \<Rightarrow>
              let xOnlyPubkey = drop 1 pub in
              bindE (lib_call (taproot_tweak L xOnlyPubkey)) (\<lambda>outputKey.
                let address = p2tr_address this_network outputKey in
                if address = [] then
                  Inl (CryptographyError ''Failed to generate Taproot address'')
                else Inr \<lparr>tk_privateKey = priv, tk_publicKey = pub,
                          tk_xOnlyPubkey = xOnlyPubkey, tk_address = address\<rparr>)
          | _ \<Rightarrow> Inl (CryptographyError ''Failed to derive private or public key'')))"

definition TransactionSigner_signPSBT :: "scure \<Rightarrow> Network \<Rightarrow> PSBTHex \<Rightarrow> UTXO \<Rightarrow> string \<Rightarrow> string \<Rightarrow> TransactionResult" where
  "TransactionSigner_signPSBT L this_network psbtHex utxo mnemonic derivationPath =
     signing_result
       (bindE (TransactionSigner_validateSigningInputs psbtHex utxo mnemonic) (\<lambda>_.
        bindE (TransactionSigner_deriveTaprootKeys L this_network mnemonic derivationPath 0)
          (\<lambda>keys.
          sign_and_extract L psbtHex utxo (tk_privateKey keys) (tk_xOnlyPubkey keys))))"

definition TransactionSigner_signTransaction :: "scure \<Rightarrow> Network \<Rightarrow> PSBTHex \<Rightarrow> UTXO \<Rightarrow> string \<Rightarrow> string \<Rightarrow> error + SignedTransaction" where
  "TransactionSigner_signTransaction L this_network psbtHex utxo mnemonic derivationPath =
     to_SignedTransaction
       (TransactionSigner_signPSBT L this_network psbtHex utxo mnemonic derivationPath)"

section \<open>secp256k1 public keys, as the HD path derives them\<close>

text \<open>
  On the HD path the public key of a node is computed by @scure/bip32 as the point
  \<open>P = d\<cdot>G\<close> on secp256k1, serialised in compressed form. The curve arithmetic
  is written out here from the SEC 2 parameters, so that the key the library derives for
  a given private key can be compared with what \<open>derivePublicKey\<close> returns.
\<close>

definition secp_p :: int where
  "secp_p = 2 ^ 256 - 2 ^ 32 - 977"

definition secp_Gx :: int where
  "secp_Gx = 0x79BE667EF9DCBBAC55A06295CE870B07029BFCDB2DCE28D959F2815B16F81798"

definition secp_Gy :: int where
  "secp_Gy = 0x483ADA7726A3C4655DA4FBFC0E1108A8FD17B448A68554199C47D08FFB10D4B8"

text \<open>A point is \<open>None\<close> (the point at infinity) or affine coordinates.\<close>

type_synonym point = "(int \<times> int) option"

definition secp_G :: point where
  "secp_G = Some (secp_Gx, secp_Gy)"

fun pow_mod :: "int \<Rightarrow> nat \<Rightarrow> int \<Rightarrow> int" where
  "pow_mod a e m =
     (if e = 0 then 1 mod m
      else let h = pow_mod a (e div 2) m in
           if even e then (h * h) mod m else (h * h * a) mod m)"

declare pow_mod.simps [simp del]

definition inv_mod_p :: "int \<Rightarrow> int" where
  "inv_mod_p a = pow_mod a (nat (secp_p - 2)) secp_p"

definition ec_add :: "point \<Rightarrow> point \<Rightarrow> point" where
  "ec_add P Q =
     (case P of None \<Rightarrow> Q
      | Some (x1, y1) \<Rightarrow>
          (case Q of None \<Rightarrow> P
           | Some (x2, y2) \<Rightarrow>
               if x1 = x2 \<and> (y1 + y2) mod secp_p = 0 then None
               else
                 let l = (if x1 = x2 then (3 * x1 * x1 * inv_mod_p (2 * y1)) mod secp_p
                          else ((y2 - y1) * inv_mod_p (x2 - x1)) mod secp_p);
                     x3 = (l * l - x1 - x2) mod secp_p;
                     y3 = (l * (x1 - x3) - y1) mod secp_p
                 in Some (x3, y3)))"

fun ec_mul :: "nat \<Rightarrow> point \<Rightarrow> point" where
  "ec_mul k P =
     (if k = 0 then None
      else let h = ec_mul (k div 2) (ec_add P P) in
           if even k then h else ec_add P h)"

declare ec_mul.simps [simp del]

definition be_bytes32 :: "int \<Rightarrow> bytes" where
  "be_bytes32 x = map (\<lambda>i. word_of_int ((x div 256 ^ (31 - i)) mod 256)) [0..<32]"

definition compress :: "point \<Rightarrow> bytes option" where
  "compress P =
     (case P of None \<Rightarrow> None
      | Some (x, y) \<Rightarrow> Some ((if even y then 0x02 else 0x03) # be_bytes32 x))"

definition secp256k1_publicKey :: "bytes \<Rightarrow> bytes option" where
  "secp256k1_publicKey privateKey = compress (ec_mul (be_nat privateKey) secp_G)"

section \<open>A stand-in library and concrete data\<close>

text \<open>
  To run the wallet on concrete data the library parameter has to be instantiated.
  \<open>stub_scure\<close> decodes and encodes hex as @scure/base does; its cryptographic
  steps are placeholders: the taproot tweak returns a 32-byte key unchanged,
  \<open>p2wpkh\<close> and \<open>p2pkh\<close> take 33 bytes for a public key and throw on anything
  else (so on the 20 bytes the wallet passes, as the library does), key derivation
  returns the private key 1 with its secp256k1 public key, and signing returns a fixed
  byte string. It is used for concrete runs only; the general theorems hold for every
  library. The first 32 bytes of \<open>ex_address\<close> and \<open>ex_address2\<close> are the
  x coordinate of a point of secp256k1, a key that \<open>btc.p2tr\<close> accepts.
\<close>

definition hex_value :: "char \<Rightarrow> nat option" where
  "hex_value c =
     (if in_range CHR ''0'' CHR ''9'' c then Some (of_char c - 48)
      else if in_range CHR ''a'' CHR ''f'' c then Some (of_char c - 87)
      else if in_range CHR ''A'' CHR ''F'' c then Some (of_char c - 55)
      else None)"

fun hex_decode_ref :: "string \<Rightarrow> bytes option" where
  "hex_decode_ref [] = Some []"
| "hex_decode_ref [c] = None"
| "hex_decode_ref (a # b # rest) =
     (case (hex_value a, hex_value b, hex_decode_ref rest) of
        (Some h, Some l, Some bs) \<Rightarrow> Some (of_nat (16 * h + l) # bs)
      | _ \<Rightarrow> None)"

definition hex_encode_ref :: "bytes \<Rightarrow> string" where
  "hex_encode_ref b = concat (map byte_hex b)"

definition key_one :: bytes where
  "key_one = replicate 31 0 @ [1]"

definition pubkey_one :: bytes where
  "pubkey_one =
     [0x02, 0x79, 0xBE, 0x66, 0x7E, 0xF9, 0xDC, 0xBB, 0xAC, 0x55, 0xA0, 0x62, 0x95, 0xCE,
      0x87, 0x0B, 0x07, 0x02, 0x9B, 0xFC, 0xDB, 0x2D, 0xCE, 0x28, 0xD9, 0x59, 0xF2, 0x81,
      0x5B, 0x16, 0xF8, 0x17, 0x98]"

definition stub_scure :: scure where
  "stub_scure =
     \<lparr>hex_decode = hex_decode_ref,
      hex_encode = hex_encode_ref,
      taproot_tweak = (\<lambda>k. if length k = 32 then Some k else None),
      p2wpkh = (\<lambda>k. if length k = 33 then Some ([0x00, 0x14] @ take 20 (drop 1 k)) else None),
      p2pkh = (\<lambda>k. if length k = 33 then
                    Some ([0x76, 0xa9, 0x14] @ take 20 (drop 1 k) @ [0x88, 0xac]) else None),
      script_encode_op_return = (\<lambda>d. Some ([0x6a, of_nat (length d)] @ d)),
      addInput_ok = (\<lambda>i. length (in_txid i) = 32),
      addOutput_ok = (\<lambda>out. 0 \<le> to_amount out),
      toPSBT_ok = (\<lambda>tx. True),
      sign_finalize_extract = (\<lambda>tx key. Some [0x02, 0x00, 0x00, 0x00]),
      raw_tx_id = (\<lambda>b. None),
      bip39_validate = (\<lambda>m. length (trim_split m) = 12),
      bip39_generate = (\<lambda>n. None),
      hd_derive = (\<lambda>m path. Some (Some key_one, Some pubkey_one)),
      hd_derive_path = (\<lambda>m path. Some (Some key_one, Some pubkey_one))\<rparr>"

definition ex_txid :: string where
  "ex_txid = concat (replicate 32 ''ab'')"

definition ex_address :: string where
  "ex_address = ''tb1p'' @ replicate 58 CHR ''p''"

definition ex_address2 :: string where
  "ex_address2 = ''tb1p'' @ replicate 57 CHR ''p'' @ ''q''"

definition ex_mnemonic :: string where
  "ex_mnemonic =
     ''abandon abandon abandon abandon abandon abandon abandon abandon abandon abandon abandon about''"

definition ex_utxo :: "int \<Rightarrow> UTXO" where
  "ex_utxo a = \<lparr>utxo_txid = ex_txid, utxo_vout = 0, utxo_amount = a, utxo_address = ex_address\<rparr>"

definition ex_simple :: "int list \<Rightarrow> int list \<Rightarrow> int option \<Rightarrow> SimpleTxParams" where
  "ex_simple ins outs fr =
     \<lparr>s_utxos = map ex_utxo ins,
      s_outputs = map (\<lambda>a. \<lparr>out_address = ex_address2, out_amount = a\<rparr>) outs,
      s_changeAddress = ex_address, s_network = None, s_feeRate = fr\<rparr>"

definition ex_mining :: "int \<Rightarrow> int option \<Rightarrow> MiningTxParams" where
  "ex_mining a fr =
     \<lparr>m_utxo = ex_utxo a,
      m_miningData = \<lparr>md_hash = concat (replicate 16 ''0f''), md_nonce = 7\<rparr>,
      m_changeAddress = ex_address, m_network = None, m_feeRate = fr\<rparr>"

definition ex_segwit_address :: string where
  "ex_segwit_address = ''tb1q'' @ replicate 38 CHR ''q''"

definition ex_simple_segwit :: "int list \<Rightarrow> int list \<Rightarrow> int option \<Rightarrow> SimpleTxParams" where
  "ex_simple_segwit ins outs fr =
     \<lparr>s_utxos = map ex_utxo ins,
      s_outputs = map (\<lambda>a. \<lparr>out_address = ex_segwit_address, out_amount = a\<rparr>) outs,
      s_changeAddress = ex_address, s_network = None, s_feeRate = fr\<rparr>"

text \<open>A transaction with two Taproot inputs of 10000 satoshis each and two outputs, of
  15000 and of 4790 satoshis: it pays a fee of 210.\<close>

definition ex_two_input_tx :: Transaction where
  "ex_two_input_tx =
     \<lparr>tx_inputs =
        [\<lparr>in_txid = replicate 32 0xab, in_index = 0,
          in_witnessUtxo = Some ([0x51, 0x20] @ drop 1 pubkey_one, 10000)\<rparr>,
         \<lparr>in_txid = replicate 32 0xab, in_index = 1,
          in_witnessUtxo = Some ([0x51, 0x20] @ drop 1 pubkey_one, 10000)\<rparr>],
      tx_outputs =
        [\<lparr>to_script = [0x51, 0x20] @ replicate 32 0x70, to_amount = 15000\<rparr>,
         \<lparr>to_script = [0x51, 0x20] @ drop 1 pubkey_one, to_amount = 4790\<rparr>]\<rparr>"

section \<open>Quantities the properties speak about\<close>

text \<open>
  The range in which the model's \<^typ>\<open>int\<close> is the source's number. JavaScript
  adds, subtracts and multiplies doubles; on whole numbers of absolute value up to
  \<open>2 ^ 53 - 1\<close> the result is exact as long as it stays in that range. \<open>exact_range p\<close>
  says that every amount of \<open>p\<close>, every partial sum of the two \<open>reduce\<close> loops, the
  fee and the change of a simple payment are in it.
\<close>

definition MAX_SAFE_INTEGER :: int where
  "MAX_SAFE_INTEGER = 2 ^ 53 - 1"

definition safe_integer :: "int \<Rightarrow> bool" where
  "safe_integer x = (\<bar>x\<bar> \<le> MAX_SAFE_INTEGER)"

fun partial_sums :: "int \<Rightarrow> int list \<Rightarrow> int list" where
  "partial_sums a [] = [a]"
| "partial_sums a (x # xs) = a # partial_sums (a + x) xs"

definition exact_range :: "SimpleTxParams \<Rightarrow> bool" where
  "exact_range p =
     (list_all safe_integer (map utxo_amount (s_utxos p)) \<and>
      list_all safe_integer (partial_sums 0 (map utxo_amount (s_utxos p))) \<and>
      list_all safe_integer (map out_amount (s_outputs p)) \<and>
      list_all safe_integer (partial_sums 0 (map out_amount (s_outputs p))) \<and>
      safe_integer (effective_feeRate (s_feeRate p)) \<and>
      safe_integer (simpleFee p) \<and>
      safe_integer (totalInput p - totalOutput p) \<and>
      safe_integer (simpleChangeAmount p))"

definition input_amount :: "TxInput \<Rightarrow> int" where
  "input_amount i = (case in_witnessUtxo i of Some (script, a) \<Rightarrow> a | None \<Rightarrow> 0)"

definition sum_inputs :: "Transaction \<Rightarrow> int" where
  "sum_inputs tx = sum_list (map input_amount (tx_inputs tx))"

definition sum_outputs :: "Transaction \<Rightarrow> int" where
  "sum_outputs tx = sum_list (map to_amount (tx_outputs tx))"

text \<open>The outputs of a built transaction that follow the first \<open>n\<close>: for a simple
  payment with \<open>n\<close> requested outputs, and for a mining transaction with \<open>n = 1\<close>,
  these are the change outputs the builder emitted.\<close>

definition outputs_after :: "nat \<Rightarrow> Transaction \<Rightarrow> TxOutput list" where
  "outputs_after n tx = drop n (tx_outputs tx)"

text \<open>The length of the address prefix that \<open>createScriptPubKey\<close> reads.\<close>

definition script_prefix_length :: "string \<Rightarrow> nat" where
  "script_prefix_length address =
     (if startsWith address ''bc1p'' \<or> startsWith address ''tb1p'' then 32 else 20)"

definition same_script_prefix :: "string \<Rightarrow> string \<Rightarrow> bool" where
  "same_script_prefix a b =
     (take (script_prefix_length a) (utf8 a) = take (script_prefix_length b) (utf8 b))"

definition DEFAULT_DERIVATION_PATH :: string where
  "DEFAULT_DERIVATION_PATH = ''m/86'' @ [CHR 0x27] @ ''/0'' @ [CHR 0x27] @ ''/0'' @ [CHR 0x27]"

text \<open>Replacing the address \<open>a\<close> by \<open>b\<close> wherever a builder emits an output for it.\<close>

definition replace_address :: "string \<Rightarrow> string \<Rightarrow> string \<Rightarrow> string" where
  "replace_address a b x = (if x = a then b else x)"

definition simple_with :: "string \<Rightarrow> string \<Rightarrow> SimpleTxParams \<Rightarrow> SimpleTxParams" where
  "simple_with a b p =
     p\<lparr>s_outputs := map (\<lambda>out. out\<lparr>out_address := replace_address a b (out_address out)\<rparr>)
                        (s_outputs p),
       s_changeAddress := replace_address a b (s_changeAddress p)\<rparr>"

definition mining_with :: "string \<Rightarrow> string \<Rightarrow> MiningTxParams \<Rightarrow> MiningTxParams" where
  "mining_with a b q = q\<lparr>m_changeAddress := replace_address a b (m_changeAddress q)\<rparr>"

text \<open>Every address of the inputs and requested outputs is turned into a script.\<close>

definition scripts_built :: "scure \<Rightarrow> Network \<Rightarrow> SimpleTxParams \<Rightarrow> bool" where
  "scripts_built L this_network p =
     (let network = effective_network this_network (s_network p) in
      list_all (\<lambda>u. \<not> isl (createScriptPubKey L (utxo_address u) network)) (s_utxos p) \<and>
      list_all (\<lambda>out. \<not> isl (createScriptPubKey L (out_address out) network)) (s_outputs p))"

section \<open>Basic facts about the builder\<close>

lemma bindE_Inl [simp]: "bindE (Inl e) f = Inl e"
  by (simp add: bindE_def)

lemma bindE_Inr [simp]: "bindE (Inr x) f = f x"
  by (simp add: bindE_def)

lemma bindE_eq_Inr: "bindE m f = Inr y \<longleftrightarrow> (\<exists>x. m = Inr x \<and> f x = Inr y)"
  by (cases m) simp_all

lemma foldl_plus: "foldl (\<lambda>s x. s + f x) (a::int) xs = a + sum_list (map f xs)"
  by (induction xs arbitrary: a) simp_all

lemma addInput_Inr:
  "addInput L tx i = Inr tx' \<Longrightarrow> tx' = tx\<lparr>tx_inputs := tx_inputs tx @ [i]\<rparr>"
  by (auto simp: addInput_def split: if_splits)

lemma addOutput_Inr:
  "addOutput L tx out = Inr tx' \<Longrightarrow> tx' = tx\<lparr>tx_outputs := tx_outputs tx @ [out]\<rparr>"
  by (auto simp: addOutput_def split: if_splits)

lemma addInputs_Inr:
  "addInputs L n tx us = Inr tx' \<Longrightarrow>
     tx_outputs tx' = tx_outputs tx \<and>
     map input_amount (tx_inputs tx') = map input_amount (tx_inputs tx) @ map utxo_amount us"
proof (induction us arbitrary: tx)
  case Nil
  then show ?case by simp
next
  case (Cons u us)
  from Cons.prems obtain h script tx1 where
    a: "addInput L tx \<lparr>in_txid = rev h, in_index = utxo_vout u,
          in_witnessUtxo = Some (script, utxo_amount u)\<rparr> = Inr tx1"
    and r: "addInputs L n tx1 us = Inr tx'"
    by (auto simp: bindE_eq_Inr)
  from addInput_Inr [OF a] Cons.IH [OF r] show ?case
    by (simp add: input_amount_def)
qed

lemma addOutputs_Inr:
  "addOutputs L n tx os = Inr tx' \<Longrightarrow>
     tx_inputs tx' = tx_inputs tx \<and>
     map to_amount (tx_outputs tx') = map to_amount (tx_outputs tx) @ map out_amount os"
proof (induction os arbitrary: tx)
  case Nil
  then show ?case by simp
next
  case (Cons out os)
  from Cons.prems obtain script tx1 where
    a: "addOutput L tx \<lparr>to_script = script, to_amount = out_amount out\<rparr> = Inr tx1"
    and r: "addOutputs L n tx1 os = Inr tx'"
    by (auto simp: bindE_eq_Inr)
  from addOutput_Inr [OF a] Cons.IH [OF r] show ?case
    by simp
qed

lemma buildSimpleTx_Inr:
  assumes "buildSimpleTx L net p = Inr tx"
  shows "validateSimpleParams p = Inr ()"
    and "0 \<le> simpleChangeAmount p"
    and "map input_amount (tx_inputs tx) = map utxo_amount (s_utxos p)"
    and "map to_amount (tx_outputs tx) =
           map out_amount (s_outputs p) @
           (if simpleChangeAmount p > DUST_THRESHOLD then [simpleChangeAmount p] else [])"
proof -
  from assms obtain tx1 tx2 where
    v: "validateSimpleParams p = Inr ()"
    and i: "addInputs L (effective_network net (s_network p)) new_Transaction (s_utxos p) = Inr tx1"
    and o: "addOutputs L (effective_network net (s_network p)) tx1 (s_outputs p) = Inr tx2"
    and c: "(if simpleChangeAmount p > DUST_THRESHOLD then
              bindE (createScriptPubKey L (s_changeAddress p) (effective_network net (s_network p)))
                (\<lambda>changeScript. addOutput L tx2 \<lparr>to_script = changeScript, to_amount = simpleChangeAmount p\<rparr>)
            else if simpleChangeAmount p < 0 then
              Inl (TransactionError ''Insufficient funds for transaction'')
            else Inr tx2) = Inr tx"
    by (auto simp: buildSimpleTx_def bindE_eq_Inr Let_def)
  note I = addInputs_Inr [OF i] and O = addOutputs_Inr [OF o]
  show "validateSimpleParams p = Inr ()" by (rule v)
  show "0 \<le> simpleChangeAmount p"
    using c by (auto simp: DUST_THRESHOLD_def split: if_splits)
  show "map input_amount (tx_inputs tx) = map utxo_amount (s_utxos p)"
    using c I O by (auto simp: bindE_eq_Inr new_Transaction_def split: if_splits dest!: addOutput_Inr)
  show "map to_amount (tx_outputs tx) =
           map out_amount (s_outputs p) @
           (if simpleChangeAmount p > DUST_THRESHOLD then [simpleChangeAmount p] else [])"
    using c I O by (auto simp: bindE_eq_Inr new_Transaction_def split: if_splits dest!: addOutput_Inr)
qed

lemma buildMiningTx_Inr:
  assumes "buildMiningTx L net q = Inr tx"
  shows "validateMiningParams q = Inr ()"
    and "DUST_THRESHOLD \<le> miningChangeAmount q"
    and "map input_amount (tx_inputs tx) = [utxo_amount (m_utxo q)]"
    and "map to_amount (tx_outputs tx) = [0, miningChangeAmount q]"
  using assms
  by (auto simp: buildMiningTx_def bindE_eq_Inr Let_def new_Transaction_def input_amount_def
      split: if_splits dest!: addOutput_Inr addInput_Inr)


lemma rethrow_Inr: "rethrow msg r = Inr x \<longleftrightarrow> r = Inr x"
  by (auto simp: rethrow_def split: sum.splits error.splits)

lemma rethrow_Inl_kind:
  "rethrow msg r = Inl e \<Longrightarrow> is_TransactionError e \<or> is_ValidationError e"
  by (auto simp: rethrow_def split: sum.splits error.splits)

lemma rethrow_Inl_ex: "r = Inl e \<Longrightarrow> \<exists>e'. rethrow msg r = Inl e'"
  by (auto simp: rethrow_def split: sum.splits error.splits)

lemma rethrow_not_validation:
  "r = Inl e \<Longrightarrow> \<not> is_ValidationError e \<Longrightarrow> rethrow msg r = Inl e' \<Longrightarrow> is_TransactionError e'"
  by (auto simp: rethrow_def split: sum.splits error.splits)

lemma toPSBT_Inr: "toPSBT L tx = Inr h \<Longrightarrow> h = tx"
  by (auto simp: toPSBT_def split: if_splits)

lemma createSimpleTransaction_Inr:
  "createSimpleTransaction L net p = Inr h \<Longrightarrow> buildSimpleTx L net p = Inr h"
  by (auto simp: createSimpleTransaction_def rethrow_Inr bindE_eq_Inr dest: toPSBT_Inr)

lemma createMiningTransaction_Inr:
  "createMiningTransaction L net q = Inr h \<Longrightarrow> buildMiningTx L net q = Inr h"
  by (auto simp: createMiningTransaction_def rethrow_Inr bindE_eq_Inr dest: toPSBT_Inr)

subsection \<open>Mining transactions with change below the dust threshold\<close>

text \<open>
  Claim C6. A mining transaction has one input, the zero-value OP_RETURN output and one
  change output; its fee is the fee rate times the estimated size for 1 input and 2
  outputs. Whenever the change, the UTXO amount minus that fee, is below 546 satoshis,
  \<open>createMiningTransaction\<close> fails with an error of the wallet and returns no
  transaction, whatever the library does.
\<close>

theorem mining_change_below_dust_fails:
  assumes "utxo_amount (m_utxo q) - effective_feeRate (m_feeRate q) * estimateTransactionSize 1 2 < 546"
  shows "\<exists>e. createMiningTransaction L net q = Inl e \<and> (is_TransactionError e \<or> is_ValidationError e)"
proof (cases "createMiningTransaction L net q")
  case (Inl e)
  then show ?thesis
    by (auto simp: createMiningTransaction_def dest: rethrow_Inl_kind)
next
  case (Inr h)
  from buildMiningTx_Inr(2) [OF createMiningTransaction_Inr [OF Inr]] assms
  show ?thesis by (simp add: miningChangeAmount_def DUST_THRESHOLD_def)
qed

theorem mining_change_below_dust_fails_witness:
  "utxo_amount (m_utxo (ex_mining 1000 None))
     - effective_feeRate (m_feeRate (ex_mining 1000 None)) * estimateTransactionSize 1 2 < 546 \<and>
   (\<exists>e. createMiningTransaction stub_scure testnet (ex_mining 1000 None) = Inl e \<and>
        (is_TransactionError e \<or> is_ValidationError e))"
proof -
  have h: "utxo_amount (m_utxo (ex_mining 1000 None))
     - effective_feeRate (m_feeRate (ex_mining 1000 None)) * estimateTransactionSize 1 2 < 546"
    by code_simp
  from h mining_change_below_dust_fails [OF h, of stub_scure testnet] show ?thesis by simp
qed

subsection \<open>Simple payments with insufficient funds\<close>

lemma addInputs_Inl:
  "addInputs L n tx us = Inl e \<Longrightarrow>
   list_all (\<lambda>u. \<not> isl (createScriptPubKey L (utxo_address u) n)) us \<Longrightarrow>
   \<not> is_ValidationError e"
proof (induction us arbitrary: tx)
  case Nil
  then show ?case by simp
next
  case (Cons u us)
  then show ?case
    by (auto simp: bindE_def lib_call_def addInput_def split: sum.splits option.splits if_splits)
qed

lemma addOutputs_Inl:
  "addOutputs L n tx os = Inl e \<Longrightarrow>
   list_all (\<lambda>out. \<not> isl (createScriptPubKey L (out_address out) n)) os \<Longrightarrow>
   \<not> is_ValidationError e"
proof (induction os arbitrary: tx)
  case Nil
  then show ?case by simp
next
  case (Cons out os)
  then show ?case
    by (auto simp: bindE_def addOutput_def split: sum.splits if_splits)
qed

lemma buildSimpleTx_insufficient:
  assumes "simpleChangeAmount p < 0"
    and "validateSimpleParams p = Inr ()"
    and "scripts_built L net p"
  shows "\<exists>e. buildSimpleTx L net p = Inl e \<and> \<not> is_ValidationError e"
proof -
  let ?n = "effective_network net (s_network p)"
  from assms(3) have
    si: "list_all (\<lambda>u. \<not> isl (createScriptPubKey L (utxo_address u) ?n)) (s_utxos p)" and
    so: "list_all (\<lambda>out. \<not> isl (createScriptPubKey L (out_address out) ?n)) (s_outputs p)"
    by (simp_all add: scripts_built_def Let_def)
  show ?thesis
  proof (cases "addInputs L ?n new_Transaction (s_utxos p)")
    case (Inl e)
    with addInputs_Inl [OF Inl si] assms(2) show ?thesis
      by (simp add: buildSimpleTx_def Let_def)
  next
    case i: (Inr tx1)
    show ?thesis
    proof (cases "addOutputs L ?n tx1 (s_outputs p)")
      case (Inl e)
      with addOutputs_Inl [OF Inl so] assms(2) i show ?thesis
        by (simp add: buildSimpleTx_def Let_def)
    next
      case (Inr tx2)
      with i assms(1,2) show ?thesis
        by (simp add: buildSimpleTx_def Let_def DUST_THRESHOLD_def)
    qed
  qed
qed

lemma validate_outputs_kind: "validate_outputs os = Inl e \<Longrightarrow> is_ValidationError e"
  by (induction os) (auto split: if_splits)

lemma validateSimpleParams_kind:
  "validateSimpleParams p = Inl e \<Longrightarrow> is_ValidationError e"
  by (auto simp: validateSimpleParams_def bindE_def split: if_splits sum.splits
      dest: validate_outputs_kind)

lemma rejected_simple_params:
  assumes "validateSimpleParams p \<noteq> Inr ()"
  shows "\<exists>e. createSimpleTransaction L net p = Inl e \<and> is_ValidationError e"
proof -
  from assms obtain e where e: "validateSimpleParams p = Inl e"
    by (cases "validateSimpleParams p") auto
  from validateSimpleParams_kind [OF e] obtain m where "e = ValidationError m"
    by (cases e) auto
  with e show ?thesis
    by (simp add: createSimpleTransaction_def buildSimpleTx_def rethrow_def)
qed

text \<open>
  Claim C4, as the code has it. For a simple payment whose amounts are in the exact
  range and whose inputs do not cover the outputs plus the computed fee,
  \<open>createSimpleTransaction\<close> returns no transaction, whatever the library does. The
  error is a \<open>TransactionError\<close> when the parameters pass \<open>validateSimpleParams\<close>
  and every input and output address is turned into a script; it is the
  \<open>ValidationError\<close> of \<open>validateSimpleParams\<close> when the parameters are rejected
  there; and when an address is not turned into a script it is one of the two.
\<close>

theorem insufficient_funds_fails:
  assumes "exact_range p"
    and "totalInput p - totalOutput p - simpleFee p < 0"
  shows "\<exists>e. createSimpleTransaction L net p = Inl e \<and>
           (is_TransactionError e \<or> is_ValidationError e) \<and>
           (validateSimpleParams p = Inr () \<and> scripts_built L net p \<longrightarrow> is_TransactionError e) \<and>
           (validateSimpleParams p \<noteq> Inr () \<longrightarrow> is_ValidationError e)"
proof -
  from assms(2) have neg: "simpleChangeAmount p < 0"
    by (simp add: simpleChangeAmount_def)
  show ?thesis
  proof (cases "createSimpleTransaction L net p")
    case (Inr h)
    from buildSimpleTx_Inr(2) [OF createSimpleTransaction_Inr [OF Inr]] neg
    show ?thesis by simp
  next
    case (Inl e)
    have t: "is_TransactionError e"
      if v: "validateSimpleParams p = Inr ()" and s: "scripts_built L net p"
    proof -
      from buildSimpleTx_insufficient [OF neg v s] obtain e0 where
        b: "buildSimpleTx L net p = Inl e0" and nv: "\<not> is_ValidationError e0"
        by blast
      from Inl b have "rethrow ''Failed to create simple transaction'' (Inl e0 :: error + PSBTHex) = Inl e"
        by (simp add: createSimpleTransaction_def)
      from rethrow_not_validation [OF refl nv this] show ?thesis .
    qed
    have r: "is_ValidationError e" if "validateSimpleParams p \<noteq> Inr ()"
      using rejected_simple_params [OF that, of L net] Inl by auto
    from Inl have "is_TransactionError e \<or> is_ValidationError e"
      by (auto simp: createSimpleTransaction_def dest: rethrow_Inl_kind)
    with Inl t r show ?thesis by blast
  qed
qed

text \<open>The theorem at one UTXO of 1000 satoshis and one output of 2000: the parameters are
  valid, the scripts are built, and the failure is the \<open>TransactionError\<close>.\<close>

theorem insufficient_funds_fails_witness:
  "exact_range (ex_simple [1000] [2000] None) \<and>
   totalInput (ex_simple [1000] [2000] None) - totalOutput (ex_simple [1000] [2000] None)
     - simpleFee (ex_simple [1000] [2000] None) < 0 \<and>
   validateSimpleParams (ex_simple [1000] [2000] None) = Inr () \<and>
   scripts_built stub_scure testnet (ex_simple [1000] [2000] None) \<and>
   (\<exists>e. createSimpleTransaction stub_scure testnet (ex_simple [1000] [2000] None) = Inl e \<and>
        is_TransactionError e)"
proof -
  have x: "exact_range (ex_simple [1000] [2000] None)"
    by code_simp
  have h: "totalInput (ex_simple [1000] [2000] None) - totalOutput (ex_simple [1000] [2000] None)
     - simpleFee (ex_simple [1000] [2000] None) < 0"
    by code_simp
  have v: "validateSimpleParams (ex_simple [1000] [2000] None) = Inr ()"
    by code_simp
  have s: "scripts_built stub_scure testnet (ex_simple [1000] [2000] None)"
    by code_simp
  from x h v s insufficient_funds_fails [OF x h, of stub_scure testnet] show ?thesis by blast
qed

text \<open>
  The failure is not always a \<open>TransactionError\<close>. With one UTXO of 1000 satoshis and
  the default fee rate, an output of 100 satoshis cannot be covered and is rejected by
  validation, before the library is called at all; and an output of 2000 satoshis to a
  \<open>tb1q\<close> address cannot be covered, passes validation and fails in
  \<open>createScriptPubKey\<close>. Both failures are \<open>ValidationError\<close>s.
\<close>

theorem insufficient_funds_ValidationError_counterexample:
  "exact_range (ex_simple [1000] [100] None) \<and>
   totalInput (ex_simple [1000] [100] None) - totalOutput (ex_simple [1000] [100] None)
     - simpleFee (ex_simple [1000] [100] None) < 0 \<and>
   createSimpleTransaction stub_scure testnet (ex_simple [1000] [100] None) =
     Inl (ValidationError ''Output amount below dust threshold'') \<and>
   exact_range (ex_simple_segwit [1000] [2000] None) \<and>
   totalInput (ex_simple_segwit [1000] [2000] None)
     - totalOutput (ex_simple_segwit [1000] [2000] None)
     - simpleFee (ex_simple_segwit [1000] [2000] None) < 0 \<and>
   validateSimpleParams (ex_simple_segwit [1000] [2000] None) = Inr () \<and>
   createSimpleTransaction stub_scure testnet (ex_simple_segwit [1000] [2000] None) =
     Inl (ValidationError (''Failed to create script for address '' @ ex_segwit_address))"
  by code_simp

section \<open>Signing: the fee field\<close>

lemma to_SignedTransaction_fee:
  "to_SignedTransaction r = Inr s \<Longrightarrow> tr_success r \<and> st_fee s = or0 (tr_fee r)"
  by (auto simp: to_SignedTransaction_def split: bool.splits option.splits if_splits prod.splits)

lemma or0_Some: "or0 (Some v) = v"
  by (simp add: or0_def)

lemma updateWitnessUtxo_outputs:
  "updateWitnessUtxo L tx utxo k = Inr tx' \<Longrightarrow> tx_outputs tx' = tx_outputs tx"
  by (auto simp: updateWitnessUtxo_def Let_def split: list.splits option.splits if_splits)

lemma calculateFee_eq: "calculateFee utxo tx = utxo_amount utxo - sum_outputs tx"
  by (simp add: calculateFee_def sum_outputs_def foldl_plus)

lemma sign_and_extract_fee:
  "sign_and_extract L psbt utxo key k = Inr r \<Longrightarrow>
     tr_fee r = Some (utxo_amount utxo - sum_outputs psbt)"
  by (auto simp: sign_and_extract_def bindE_eq_Inr calculateFee_eq sum_outputs_def
      dest: updateWitnessUtxo_outputs)

lemma signing_result_success:
  "tr_success (signing_result r) \<Longrightarrow> r = Inr (signing_result r)"
  by (cases r) (simp_all add: signing_result_def)

lemma TransactionSigner_fee:
  assumes "TransactionSigner_signTransaction L net psbt utxo mnemonic path = Inr s"
  shows "st_fee s = utxo_amount utxo - sum_outputs psbt"
proof -
  define r where "r = TransactionSigner_signPSBT L net psbt utxo mnemonic path"
  from assms have ok: "tr_success r" and fee: "st_fee s = or0 (tr_fee r)"
    unfolding TransactionSigner_signTransaction_def r_def
    by (simp_all add: to_SignedTransaction_fee)
  from ok have
    "bindE (TransactionSigner_validateSigningInputs psbt utxo mnemonic) (\<lambda>_.
        bindE (TransactionSigner_deriveTaprootKeys L net mnemonic path 0)
          (\<lambda>keys.
          sign_and_extract L psbt utxo (tk_privateKey keys) (tk_xOnlyPubkey keys))) = Inr r"
    unfolding r_def TransactionSigner_signPSBT_def by (rule signing_result_success)
  then obtain keys :: TaprootKeys where
    "sign_and_extract L psbt utxo (tk_privateKey keys) (tk_xOnlyPubkey keys) = Inr r"
    unfolding bindE_eq_Inr by blast
  from sign_and_extract_fee [OF this] fee show ?thesis
    by (simp add: or0_Some)
qed

lemma AddressWallet_fee:
  assumes "AddressWallet_signTransaction L w psbt utxo = Inr s"
  shows "st_fee s = utxo_amount utxo - sum_outputs psbt"
proof -
  define r where "r = AddressWallet_signPSBT L w psbt utxo"
  from assms have ok: "tr_success r" and fee: "st_fee s = or0 (tr_fee r)"
    unfolding AddressWallet_signTransaction_def r_def
    by (simp_all add: to_SignedTransaction_fee)
  from ok have
    "bindE (AddressWallet_validateSigningInputs w psbt utxo) (\<lambda>_.
          sign_and_extract L psbt utxo (aw_privateKey w) (aw_xOnlyPubkey w)) = Inr r"
    unfolding r_def AddressWallet_signPSBT_def by (rule signing_result_success)
  then have
    "sign_and_extract L psbt utxo (aw_privateKey w) (aw_xOnlyPubkey w) = Inr r"
    unfolding bindE_eq_Inr by blast
  from sign_and_extract_fee [OF this] fee show ?thesis
    by (simp add: or0_Some)
qed

lemma feeRate_accepted_nonneg:
  "\<not> feeRate_rejected fr \<Longrightarrow> 0 \<le> effective_feeRate fr"
  by (auto simp: feeRate_rejected_def effective_feeRate_def DEFAULT_FEE_RATE_def
      MIN_FEE_RATE_def split: option.splits)

lemma validate_outputs_bindE:
  "bindE (validate_outputs os) f = Inr () \<Longrightarrow> f () = Inr ()"
  by (auto simp: bindE_eq_Inr)

lemma validateSimpleParams_feeRate:
  "validateSimpleParams p = Inr () \<Longrightarrow> \<not> feeRate_rejected (s_feeRate p)"
  by (auto simp: validateSimpleParams_def split: if_splits dest!: validate_outputs_bindE)

lemma validateMiningParams_feeRate:
  "validateMiningParams q = Inr () \<Longrightarrow> \<not> feeRate_rejected (m_feeRate q)"
  by (auto simp: validateMiningParams_def Let_def split: if_splits)

lemma simpleFee_nonneg:
  "validateSimpleParams p = Inr () \<Longrightarrow> 0 \<le> simpleFee p"
  by (auto simp: simpleFee_def Let_def estimateTransactionSize_def
      dest!: validateSimpleParams_feeRate feeRate_accepted_nonneg)

lemma simple_conservation:
  assumes "buildSimpleTx L net p = Inr tx"
  shows "sum_inputs tx = totalInput p"
    and "sum_outputs tx = totalOutput p + (if simpleChangeAmount p > 546 then simpleChangeAmount p else 0)"
    and "0 \<le> sum_inputs tx - sum_outputs tx"
    and "\<forall>out \<in> set (outputs_after (length (s_outputs p)) tx). 546 \<le> to_amount out"
proof -
  note B = buildSimpleTx_Inr [OF assms]
  show i: "sum_inputs tx = totalInput p"
    by (simp add: sum_inputs_def B(3) totalInput_def foldl_plus)
  show o: "sum_outputs tx = totalOutput p + (if simpleChangeAmount p > 546 then simpleChangeAmount p else 0)"
    by (simp add: sum_outputs_def B(4) totalOutput_def foldl_plus DUST_THRESHOLD_def)
  from simpleFee_nonneg [OF B(1)] B(2) show "0 \<le> sum_inputs tx - sum_outputs tx"
    unfolding i o by (auto simp: simpleChangeAmount_def)
  have "map to_amount (outputs_after (length (s_outputs p)) tx) =
          (if simpleChangeAmount p > DUST_THRESHOLD then [simpleChangeAmount p] else [])"
    unfolding outputs_after_def drop_map [symmetric] B(4) by simp
  then have "\<forall>a \<in> set (map to_amount (outputs_after (length (s_outputs p)) tx)). 546 \<le> a"
    by (simp add: DUST_THRESHOLD_def)
  then show "\<forall>out \<in> set (outputs_after (length (s_outputs p)) tx). 546 \<le> to_amount out"
    by simp
qed

lemma mining_conservation:
  assumes "buildMiningTx L net q = Inr tx"
  shows "sum_inputs tx = utxo_amount (m_utxo q)"
    and "sum_outputs tx = miningChangeAmount q"
    and "0 \<le> sum_inputs tx - sum_outputs tx"
    and "\<forall>out \<in> set (outputs_after 1 tx). 546 \<le> to_amount out"
proof -
  note B = buildMiningTx_Inr [OF assms]
  show i: "sum_inputs tx = utxo_amount (m_utxo q)"
    by (simp add: sum_inputs_def B(3))
  show o: "sum_outputs tx = miningChangeAmount q"
    by (simp add: sum_outputs_def B(4))
  from feeRate_accepted_nonneg [OF validateMiningParams_feeRate [OF B(1)]]
  show "0 \<le> sum_inputs tx - sum_outputs tx"
    unfolding i o by (simp add: miningChangeAmount_def Let_def estimateTransactionSize_def)
  have "map to_amount (outputs_after 1 tx) = [miningChangeAmount q]"
    unfolding outputs_after_def drop_map [symmetric] B(4) by simp
  with B(2) have "\<forall>a \<in> set (map to_amount (outputs_after 1 tx)). 546 \<le> a"
    by (simp add: DUST_THRESHOLD_def)
  then show "\<forall>out \<in> set (outputs_after 1 tx). 546 \<le> to_amount out"
    by simp
qed

text \<open>
  What holds of the fee field for every library: it is the amount of the one UTXO that
  was passed to the signer minus the sum of the outputs. For a transaction built from
  exactly that UTXO this is the sum of the inputs minus the sum of the outputs, and every
  change output the builders emit has at least 546 satoshis.
\<close>

lemma fee_field_of_signed_transaction:
  assumes "TransactionSigner_signTransaction L net psbt utxo mnemonic path = Inr s \<or>
           AddressWallet_signTransaction L w psbt utxo = Inr s"
  shows "st_fee s = utxo_amount utxo - sum_outputs psbt \<and>
         (createSimpleTransaction L net1 p = Inr psbt \<longrightarrow>
            (\<forall>out \<in> set (outputs_after (length (s_outputs p)) psbt). 546 \<le> to_amount out) \<and>
            (s_utxos p = [utxo] \<longrightarrow>
               st_fee s = sum_inputs psbt - sum_outputs psbt \<and> 0 \<le> st_fee s)) \<and>
         (createMiningTransaction L net2 q = Inr psbt \<longrightarrow>
            (\<forall>out \<in> set (outputs_after 1 psbt). 546 \<le> to_amount out) \<and>
            (m_utxo q = utxo \<longrightarrow>
               st_fee s = sum_inputs psbt - sum_outputs psbt \<and> 0 \<le> st_fee s))"
proof -
  from assms have fee: "st_fee s = utxo_amount utxo - sum_outputs psbt"
    by (auto dest: TransactionSigner_fee AddressWallet_fee)
  have simple: "(\<forall>out \<in> set (outputs_after (length (s_outputs p)) psbt). 546 \<le> to_amount out) \<and>
            (s_utxos p = [utxo] \<longrightarrow>
               st_fee s = sum_inputs psbt - sum_outputs psbt \<and> 0 \<le> st_fee s)"
    if "createSimpleTransaction L net1 p = Inr psbt"
  proof -
    note C = simple_conservation [OF createSimpleTransaction_Inr [OF that]]
    from C(1) have "s_utxos p = [utxo] \<Longrightarrow> sum_inputs psbt = utxo_amount utxo"
      by (simp add: totalInput_def)
    with C(3,4) fee show ?thesis by auto
  qed
  have mining: "(\<forall>out \<in> set (outputs_after 1 psbt). 546 \<le> to_amount out) \<and>
            (m_utxo q = utxo \<longrightarrow>
               st_fee s = sum_inputs psbt - sum_outputs psbt \<and> 0 \<le> st_fee s)"
    if "createMiningTransaction L net2 q = Inr psbt"
  proof -
    note C = mining_conservation [OF createMiningTransaction_Inr [OF that]]
    with fee show ?thesis by auto
  qed
  from fee simple mining show ?thesis by blast
qed

lemma two_input_fee_for_every_library:
  assumes "TransactionSigner_signTransaction L net ex_two_input_tx utxo mnemonic path = Inr s \<or>
           AddressWallet_signTransaction L w ex_two_input_tx utxo = Inr s"
    and "utxo_amount utxo = 10000"
  shows "st_fee s = - 9790"
proof -
  have "sum_outputs ex_two_input_tx = 19790" by code_simp
  with assms show ?thesis
    by (auto dest!: TransactionSigner_fee AddressWallet_fee)
qed

text \<open>
  Claim C2 says that the fee field of a signed transaction is the sum of all input
  amounts minus the sum of all output amounts, and so never negative.
  \<open>calculateFee(utxo, tx)\<close> subtracts the outputs from the amount of the single UTXO
  that the caller passed next to the transaction: for a transaction with two inputs of
  10000 satoshis, which pays 210 satoshis to the miners, and the UTXO of the first
  input, it returns -9790, and \<open>result.fee || 0\<close> passes that on.
\<close>

theorem calculateFee_counts_one_input_only:
  "sum_inputs ex_two_input_tx - sum_outputs ex_two_input_tx = 210 \<and>
   calculateFee (ex_utxo 10000) ex_two_input_tx = - 9790 \<and>
   or0 (Some (calculateFee (ex_utxo 10000) ex_two_input_tx)) = - 9790"
  by code_simp

lemma p2tr_address_nonempty: "p2tr_address n k \<noteq> []"
  by (simp add: p2tr_address_def bech32m_encode_def)

section \<open>The change output of a simple payment\<close>

text \<open>
  Claim C3 says that a change of at least 546 satoshis is paid to the change address,
  in particular a change of exactly 546. The builder compares with \<open>>\<close>: for one
  UTXO of 2622 satoshis, one output of 546 and the default fee rate of 10 the change is
  2622 - 546 - 10 * 153 = 546, and the transaction that is returned has the requested
  output only.
\<close>

theorem change_of_exactly_546_is_dropped:
  "totalInput (ex_simple [2622] [546] None) - totalOutput (ex_simple [2622] [546] None)
     - effective_feeRate (s_feeRate (ex_simple [2622] [546] None)) * (10 + 57 * 1 + 43 * (1 + 1)) = 546 \<and>
   simpleChangeAmount (ex_simple [2622] [546] None) = 546 \<and>
   \<not> isl (createSimpleTransaction stub_scure testnet (ex_simple [2622] [546] None)) \<and>
   map to_amount (tx_outputs (projr (createSimpleTransaction stub_scure testnet (ex_simple [2622] [546] None))))
     = [546]"
  by code_simp

section \<open>Parameter validation\<close>

text \<open>
  Claim C5 lists the violations that validation rejects. Two of them pass:
  \<open>validateSimpleParams\<close> has no minimum for the UTXO amount (a UTXO of 999 satoshis
  is accepted and the transaction is built), and both validators accept the fee rate 0,
  which the test \<open>feeRate && ...\<close> takes for an absent one.
\<close>

theorem validation_misses_small_utxo_and_zero_fee_rate:
  "validateSimpleParams (ex_simple [999] [546] (Some 1)) = Inr () \<and>
   \<not> isl (createSimpleTransaction stub_scure testnet (ex_simple [999] [546] (Some 1))) \<and>
   validateSimpleParams (ex_simple [2000] [546] (Some 0)) = Inr () \<and>
   \<not> isl (createSimpleTransaction stub_scure testnet (ex_simple [2000] [546] (Some 0))) \<and>
   validateMiningParams (ex_mining 1000 (Some 0)) = Inr () \<and>
   \<not> isl (createMiningTransaction stub_scure testnet (ex_mining 1000 (Some 0)))"
  by code_simp

section \<open>Generated addresses and address validation\<close>

lemma length_digits32: "length (digits32 k n) = k"
  by (simp add: digits32_def)

lemma digits32_lt: "w \<in> set (digits32 k n) \<Longrightarrow> w < 32"
  by (auto simp: digits32_def)

lemma length_toWords_32: "length b = 32 \<Longrightarrow> length (toWords b) = 52"
  by (simp add: toWords_def Let_def length_digits32)

lemma toWords_lt: "w \<in> set (toWords b) \<Longrightarrow> w < 32"
  by (auto simp: toWords_def Let_def dest: digits32_lt)

lemma length_bechChecksum: "length (bechChecksum prefix ws) = 6"
  by (simp add: bechChecksum_def Let_def length_digits32)

lemma bechChecksum_lt: "w \<in> set (bechChecksum prefix ws) \<Longrightarrow> w < 32"
  by (auto simp: bechChecksum_def Let_def dest: digits32_lt)

lemma alphabet_class: "c \<in> set BECH_ALPHABET \<Longrightarrow> bech_class c"
proof -
  have "list_all bech_class BECH_ALPHABET" by code_simp
  then show "c \<in> set BECH_ALPHABET \<Longrightarrow> bech_class c"
    by (simp add: list_all_iff)
qed

lemma alphabet_nth_class: "w < 32 \<Longrightarrow> bech_class (BECH_ALPHABET ! w)"
proof -
  assume "w < 32"
  then have "w < length BECH_ALPHABET" by (simp add: BECH_ALPHABET_def)
  then have "BECH_ALPHABET ! w \<in> set BECH_ALPHABET" by (rule nth_mem)
  then show ?thesis by (rule alphabet_class)
qed

lemma p2tr_address_shape:
  assumes "length k = 32"
  shows "\<exists>rest. p2tr_address n k = bech32_hrp n @ ''1p'' @ rest \<and> length rest = 58 \<and>
           list_all bech_class rest"
proof -
  let ?ws = "toWords k @ bechChecksum (bech32_hrp n) (1 # toWords k)"
  let ?rest = "map (\<lambda>w. BECH_ALPHABET ! w) ?ws"
  have p: "BECH_ALPHABET ! Suc 0 = CHR ''p''" by (simp add: BECH_ALPHABET_def)
  have "p2tr_address n k = bech32_hrp n @ ''1p'' @ ?rest"
    by (simp add: p2tr_address_def bech32m_encode_def p)
  moreover have "length ?rest = 58"
    by (simp add: length_toWords_32 [OF assms] length_bechChecksum)
  moreover have "list_all bech_class ?rest"
    by (auto simp: list_all_iff dest: toWords_lt bechChecksum_lt intro: alphabet_nth_class)
  ultimately show ?thesis by blast
qed

lemma p2tr_address_validates:
  assumes "length k = 32"
  shows "validateAddress n (p2tr_address n k) = valid_as n p2tr"
proof -
  from p2tr_address_shape [OF assms, of n] obtain rest where
    a: "p2tr_address n k = bech32_hrp n @ ''1p'' @ rest" and l: "length rest = 58"
    and c: "list_all bech_class rest"
    by blast
  show ?thesis
  proof (cases n)
    case mainnet
    with l c have "MAINNET_P2TR (p2tr_address n k)"
      unfolding a by (simp add: MAINNET_P2TR_def matches_prefixed_def bech32_hrp_def)
    with mainnet show ?thesis by (simp add: validateAddress_def)
  next
    case testnet
    with l c have "TESTNET_P2TR (p2tr_address n k)"
      unfolding a by (simp add: TESTNET_P2TR_def matches_prefixed_def bech32_hrp_def)
    with testnet show ?thesis by (simp add: validateAddress_def)
  next
    case testnet4
    with l c have "TESTNET_P2TR (p2tr_address n k)"
      unfolding a by (simp add: TESTNET_P2TR_def matches_prefixed_def bech32_hrp_def)
    with testnet4 show ?thesis by (simp add: validateAddress_def)
  qed
qed

lemma catch_crypto_Inr: "catch_crypto msg r = Inr x \<longleftrightarrow> r = Inr x"
  by (cases r) (simp_all add: catch_crypto_def)

lemma lib_call_Inr: "lib_call r = Inr x \<longleftrightarrow> r = Some x"
  by (cases r) (simp_all add: lib_call_def)

lemma derive_bundle_address:
  assumes "derive_bundle L chk mnemonic network index = Inr keys"
  shows "\<exists>x q. taproot_tweak L x = Some q \<and> tk_address keys = p2tr_address network q"
proof -
  from assms obtain addressKey where
    k: "(case addressKey of
            (Some priv, Some pub) \<Rightarrow>
              let xOnlyPubkey = drop 1 pub in
              bindE (lib_call (taproot_tweak L xOnlyPubkey)) (\<lambda>outputKey.
                let address = p2tr_address network outputKey in
                if address = [] then
                  Inl (CryptographyError ''Failed to generate Taproot address'')
                else Inr \<lparr>tk_privateKey = priv, tk_publicKey = pub,
                          tk_xOnlyPubkey = xOnlyPubkey, tk_address = address\<rparr>)
          | _ \<Rightarrow> Inl (CryptographyError ''Failed to derive private or public key'')) = Inr keys"
    unfolding derive_bundle_def by (auto simp: bindE_eq_Inr split: if_splits)
  obtain a b where ab: "addressKey = (a, b)" by (cases addressKey)
  from k ab obtain priv pub where pp: "a = Some priv" "b = Some pub"
    by (cases a; cases b) auto
  from k ab pp obtain q where
    "taproot_tweak L (drop 1 pub) = Some q" and "tk_address keys = p2tr_address network q"
    by (auto simp: bindE_eq_Inr lib_call_Inr Let_def split: if_splits)
  then show ?thesis by blast
qed

text \<open>
  Claim C7. Whenever \<open>generateAddress\<close> returns an address for a mnemonic, a network
  and an index, \<open>validateAddress\<close> of a wallet configured with the same network
  accepts it: the result is valid, names that network and has type \<open>p2tr\<close>. The
  only fact used about the library is that the output key of the taproot tweak has 32
  bytes.
\<close>

theorem generated_address_validates:
  assumes "generateAddress L mnemonic network index = Inr address"
    and "\<And>x q. taproot_tweak L x = Some q \<Longrightarrow> length q = 32"
  shows "validateAddress network address = valid_as network p2tr"
proof -
  from assms(1) obtain keys where
    d: "derive_bundle L True mnemonic network index = Inr keys" and a: "address = tk_address keys"
    by (auto simp: generateAddress_def catch_crypto_Inr bindE_eq_Inr)
  from derive_bundle_address [OF d] obtain x q where
    t: "taproot_tweak L x = Some q" and k: "tk_address keys = p2tr_address network q"
    by blast
  from assms(2) [OF t] have "length q = 32" .
  from p2tr_address_validates [OF this] a k show ?thesis by simp
qed

section \<open>Output scripts read a prefix of the address only\<close>

lemma unat_of_char: "unat (of_char c :: 8 word) = of_char c"
proof -
  have "(of_char c :: 8 word) = of_nat (of_char c)"
    by (simp add: of_nat_of_char)
  then have "unat (of_char c :: 8 word) = (of_char c :: nat) mod 256"
    by (simp add: unat_of_nat)
  then show ?thesis by simp
qed

lemma utf8_inj: "utf8 a = utf8 b \<Longrightarrow> a = b"
proof -
  assume "utf8 a = utf8 b"
  then have "map unat (utf8 a) = map unat (utf8 b)" by simp
  then have "map (of_char :: char \<Rightarrow> nat) a = map of_char b"
    by (simp add: utf8_def unat_of_char comp_def)
  then show "a = b"
    by (simp add: inj_map_eq_map [OF inj_of_char])
qed

lemma take_utf8: "take n (utf8 a) = utf8 (take n a)"
  by (simp add: utf8_def take_map)

lemma script_prefix_length_ge: "4 \<le> script_prefix_length a"
  by (simp add: script_prefix_length_def)

lemma same_prefix_take4:
  assumes "same_script_prefix a b"
  shows "take 4 a = take 4 b"
proof -
  have "take 4 (utf8 a) = take 4 (take (script_prefix_length a) (utf8 a))"
    using script_prefix_length_ge [of a] by (simp add: min_def)
  also have "\<dots> = take 4 (take (script_prefix_length b) (utf8 b))"
    using assms by (simp add: same_script_prefix_def)
  also have "\<dots> = take 4 (utf8 b)"
    using script_prefix_length_ge [of b] by (simp add: min_def)
  finally show ?thesis
    by (simp add: take_utf8 utf8_inj)
qed

lemma same_prefix_startsWith:
  "same_script_prefix a b \<Longrightarrow> length p = 4 \<Longrightarrow> startsWith a p = startsWith b p"
  by (simp add: startsWith_def same_prefix_take4)

lemma paddedHash_take: "paddedHash n (take n x) = paddedHash n x"
  by (simp add: paddedHash_def)

lemma script_or_ValidationError_Inr:
  "script_or_ValidationError address r = Inr s \<longleftrightarrow> r = Some s"
  by (cases r) (simp_all add: script_or_ValidationError_def)

lemma same_prefix_script:
  assumes "same_script_prefix a b"
  shows "createScriptPubKey L a n = Inr s \<longleftrightarrow> createScriptPubKey L b n' = Inr s"
proof -
  note sw = same_prefix_startsWith [OF assms]
  have l: "script_prefix_length a = script_prefix_length b"
    by (simp add: script_prefix_length_def sw)
  from assms have "paddedHash (script_prefix_length a) (take (script_prefix_length a) (utf8 a)) =
      paddedHash (script_prefix_length a) (take (script_prefix_length a) (utf8 b))"
    by (simp add: same_script_prefix_def l)
  then have h: "paddedHash (script_prefix_length a) (utf8 a) =
      paddedHash (script_prefix_length a) (utf8 b)"
    by (simp only: paddedHash_take)
  show ?thesis
  proof (cases "startsWith a ''bc1p'' \<or> startsWith a ''tb1p''")
    case True
    then have t: "startsWith b ''bc1p'' \<or> startsWith b ''tb1p''" by (simp add: sw)
    from True h have "paddedHash 32 (utf8 a) = paddedHash 32 (utf8 b)"
      by (simp add: script_prefix_length_def)
    with True t show ?thesis
      by (simp add: createScriptPubKey_def script_or_ValidationError_Inr)
  next
    case False
    then have t: "\<not> (startsWith b ''bc1p'' \<or> startsWith b ''tb1p'')" by (simp add: sw)
    from False h have "paddedHash 20 (utf8 a) = paddedHash 20 (utf8 b)"
      by (simp add: script_prefix_length_def)
    with False t show ?thesis
      by (simp add: createScriptPubKey_def sw script_or_ValidationError_Inr)
  qed
qed

lemma same_prefix_empty: "same_script_prefix a b \<Longrightarrow> a = [] \<longleftrightarrow> b = []"
  by (drule same_prefix_take4) auto

lemma same_prefix_refl: "same_script_prefix a a"
  by (simp add: same_script_prefix_def)

lemma same_prefix_replace:
  "same_script_prefix a b \<Longrightarrow> same_script_prefix x (replace_address a b x)"
  by (simp add: replace_address_def same_prefix_refl)


lemma validate_outputs_with:
  assumes "same_script_prefix a b"
  shows "validate_outputs (map (\<lambda>out. out\<lparr>out_address := replace_address a b (out_address out)\<rparr>) os)
         = validate_outputs os"
proof (induction os)
  case Nil
  show ?case by simp
next
  case (Cons out os)
  from same_prefix_empty [OF same_prefix_replace [OF assms, of "out_address out"]]
  have "replace_address a b (out_address out) = [] \<longleftrightarrow> out_address out = []" by simp
  with Cons show ?case by simp
qed

lemma addOutputs_with:
  assumes "same_script_prefix a b"
  shows "addOutputs L n tx (map (\<lambda>out. out\<lparr>out_address := replace_address a b (out_address out)\<rparr>) os) = Inr t
         \<longleftrightarrow> addOutputs L n tx os = Inr t"
proof (induction os arbitrary: tx)
  case Nil
  show ?case by simp
next
  case (Cons out os)
  note e = same_prefix_script [OF same_prefix_replace [OF assms, of "out_address out"], of L n _ n]
  show ?case
    by (simp add: bindE_eq_Inr Cons.IH e)
qed

lemma simple_with_amounts:
  "totalInput (simple_with a b p) = totalInput p"
  "totalOutput (simple_with a b p) = totalOutput p"
  "simpleFee (simple_with a b p) = simpleFee p"
  by (simp_all add: simple_with_def totalInput_def totalOutput_def simpleFee_def foldl_plus comp_def)

lemma simple_with_fields:
  "s_utxos (simple_with a b p) = s_utxos p"
  "s_network (simple_with a b p) = s_network p"
  "s_feeRate (simple_with a b p) = s_feeRate p"
  "s_changeAddress (simple_with a b p) = replace_address a b (s_changeAddress p)"
  "s_outputs (simple_with a b p) =
     map (\<lambda>out. out\<lparr>out_address := replace_address a b (out_address out)\<rparr>) (s_outputs p)"
  by (simp_all add: simple_with_def)

lemma validateSimpleParams_with:
  assumes "same_script_prefix a b"
  shows "validateSimpleParams (simple_with a b p) = validateSimpleParams p"
proof -
  from same_prefix_empty [OF same_prefix_replace [OF assms, of "s_changeAddress p"]]
  have "replace_address a b (s_changeAddress p) = [] \<longleftrightarrow> s_changeAddress p = []" by simp
  then show ?thesis
    by (simp add: validateSimpleParams_def simple_with_fields validate_outputs_with [OF assms])
qed

lemma buildSimpleTx_with:
  assumes "same_script_prefix a b"
  shows "buildSimpleTx L net (simple_with a b p) = Inr t \<longleftrightarrow> buildSimpleTx L net p = Inr t"
proof -
  have e: "createScriptPubKey L (replace_address a b (s_changeAddress p)) n = Inr s \<longleftrightarrow>
           createScriptPubKey L (s_changeAddress p) n = Inr s" for n s
    using same_prefix_script [OF same_prefix_replace [OF assms, of "s_changeAddress p"], of L n s n]
    by simp
  show ?thesis
    unfolding buildSimpleTx_def Let_def simpleChangeAmount_def
    by (simp add: bindE_eq_Inr simple_with_amounts simple_with_fields
        validateSimpleParams_with [OF assms] addOutputs_with [OF assms] e
        cong: if_cong)
qed

lemma mining_with_fields:
  "m_utxo (mining_with a b q) = m_utxo q"
  "m_miningData (mining_with a b q) = m_miningData q"
  "m_network (mining_with a b q) = m_network q"
  "m_feeRate (mining_with a b q) = m_feeRate q"
  "m_changeAddress (mining_with a b q) = replace_address a b (m_changeAddress q)"
  by (simp_all add: mining_with_def)

lemma buildMiningTx_with:
  assumes "same_script_prefix a b"
  shows "buildMiningTx L net (mining_with a b q) = Inr t \<longleftrightarrow> buildMiningTx L net q = Inr t"
proof -
  have e: "createScriptPubKey L (replace_address a b (m_changeAddress q)) n = Inr s \<longleftrightarrow>
           createScriptPubKey L (m_changeAddress q) n = Inr s" for n s
    using same_prefix_script [OF same_prefix_replace [OF assms, of "m_changeAddress q"], of L n s n]
    by simp
  from same_prefix_empty [OF same_prefix_replace [OF assms, of "m_changeAddress q"]]
  have c: "replace_address a b (m_changeAddress q) = [] \<longleftrightarrow> m_changeAddress q = []" by simp
  have v: "validateMiningParams (mining_with a b q) = validateMiningParams q"
    by (simp add: validateMiningParams_def mining_with_fields c)
  show ?thesis
    unfolding buildMiningTx_def Let_def miningChangeAmount_def
    by (simp add: bindE_eq_Inr v e mining_with_fields cong: if_cong)
qed

text \<open>
  Claim C10. \<open>createScriptPubKey\<close> reads the first 32 bytes of the UTF-8 encoding of
  an address that starts with \<open>bc1p\<close> or \<open>tb1p\<close>, the first 20 bytes of any
  other address, and nothing else of it. Two addresses that agree on that prefix get the
  same script, and replacing one by the other among the outputs and as the change
  address of a simple payment, or as the change address of a mining transaction, leaves
  the transaction the builder returns unchanged.
\<close>

theorem script_depends_only_on_prefix:
  assumes "same_script_prefix a b"
  shows "(createScriptPubKey L a n = Inr s \<longleftrightarrow> createScriptPubKey L b n' = Inr s) \<and>
         (createSimpleTransaction L net (simple_with a b p) = Inr t \<longleftrightarrow>
            createSimpleTransaction L net p = Inr t) \<and>
         (createMiningTransaction L net' (mining_with a b q) = Inr t' \<longleftrightarrow>
            createMiningTransaction L net' q = Inr t')"
  using same_prefix_script [OF assms, of L n s n']
  by (simp add: createSimpleTransaction_def createMiningTransaction_def rethrow_Inr
      bindE_eq_Inr buildSimpleTx_with [OF assms] buildMiningTx_with [OF assms])

section \<open>The public key of the isolated signer\<close>

lemma ec_mul_0: "ec_mul 0 P = None"
  by (simp add: ec_mul.simps)

lemma ec_add_None: "ec_add P None = P"
  by (cases P) (auto simp: ec_add_def)

lemma ec_mul_1: "ec_mul (Suc 0) P = P"
  by (subst ec_mul.simps) (simp add: ec_mul_0 ec_add_None Let_def)

lemma be_nat_key_one: "be_nat key_one = Suc 0"
  by code_simp

lemma be_bytes32_Gx: "be_bytes32 secp_Gx = drop 1 pubkey_one"
  by code_simp

lemma even_Gy: "even secp_Gy"
  by code_simp

lemma secp256k1_publicKey_one: "secp256k1_publicKey key_one = Some pubkey_one"
proof -
  have "pubkey_one = 0x02 # drop 1 pubkey_one" by (simp add: pubkey_one_def)
  then show ?thesis
    by (simp add: secp256k1_publicKey_def be_nat_key_one ec_mul_1 secp_G_def compress_def
        even_Gy be_bytes32_Gx)
qed

text \<open>
  Claim C1 says that the isolated signer derives the public key \<open>P = d\<cdot>G\<close>, the
  x-only key and the address that the HD path derives for the same private key. For the
  private key 1 the point \<open>d\<cdot>G\<close> is the generator, whose compressed form starts
  with 02 79 BE 66; \<open>derivePublicKey\<close> returns 02 followed by the bytes of the
  private key with their lowest bit flipped, and \<open>fromPrivateKey\<close> stores an address
  of 58 characters made of the prefix and zeros, where a Taproot address has 62.
\<close>

theorem placeholder_public_key_is_not_scalar_multiplication:
  "secp256k1_publicKey key_one = Some pubkey_one \<and>
   \<not> isl (fromPrivateKey L key_one testnet) \<and>
   aw_publicKey (projr (fromPrivateKey L key_one testnet)) = 0x02 # replicate 31 0x01 @ [0x00] \<and>
   aw_publicKey (projr (fromPrivateKey L key_one testnet)) \<noteq> pubkey_one \<and>
   aw_xOnlyPubkey (projr (fromPrivateKey L key_one testnet)) \<noteq> drop 1 pubkey_one \<and>
   aw_address (projr (fromPrivateKey L key_one testnet)) =
     ''tb1p'' @ replicate 54 CHR ''0'' \<and>
   length (aw_address (projr (fromPrivateKey L key_one testnet))) = 58"
proof -
  have d: "derivePublicKey key_one = 0x02 # replicate 31 0x01 @ [0x00]" by code_simp
  have s: "foldl (\<lambda>acc byte. acc @ byte_hex byte) [] (take 8 key_one) = replicate 16 CHR ''0''"
    by code_simp
  have f: "fromPrivateKey L key_one testnet =
     Inr \<lparr>aw_privateKey = key_one, aw_network = testnet,
          aw_address = ''tb1p'' @ replicate 54 CHR ''0'',
          aw_publicKey = 0x02 # replicate 31 0x01 @ [0x00],
          aw_xOnlyPubkey = replicate 31 0x01 @ [0x00]\<rparr>"
    by (simp add: fromPrivateKey_def new_AddressWallet_def Let_def s d replicate_add [symmetric])
  have n: "0x02 # replicate 31 0x01 @ [0x00] \<noteq> pubkey_one" by code_simp
  have x: "replicate 31 0x01 @ [0x00] \<noteq> drop (Suc 0) pubkey_one" by code_simp
  show ?thesis
    by (simp add: f secp256k1_publicKey_one n x)
qed

section \<open>Mnemonic generation\<close>

lemma unsupported_word_count:
  "wordCount \<notin> set SUPPORTED_WORD_COUNTS \<Longrightarrow>
   generateMnemonic L wordCount = Inl (CryptographyError ''Failed to generate mnemonic'')"
  by (simp add: generateMnemonic_def catch_crypto_def)

text \<open>
  Claim C9 says that an unsupported word count fails with a \<open>ValidationError\<close>. The
  \<open>ValidationError\<close> is thrown inside the \<open>try\<close> block whose \<open>catch\<close> clause
  wraps every exception: what the caller gets for the word counts 13 and 0 is a
  \<open>CryptographyError\<close>.
\<close>

theorem unsupported_word_count_raises_CryptographyError:
  "generateMnemonic L 13 = Inl (CryptographyError ''Failed to generate mnemonic'') \<and>
   generateMnemonic L 0 = Inl (CryptographyError ''Failed to generate mnemonic'') \<and>
   \<not> is_ValidationError (CryptographyError ''Failed to generate mnemonic'')"
  by (simp add: unsupported_word_count SUPPORTED_WORD_COUNTS_def)

text \<open>
  Claim C8 says that each supported word count yields a mnemonic of that many words
  from the entropy the BIP39 table gives (160, 192 and 224 bits for 15, 18 and 21
  words). The wallet asks the library for 128 bits when the count is 12 and for 256 bits
  otherwise, so 15, 18 and 21 behave exactly as 24 does and give 24 words.
\<close>

theorem generateMnemonic_15_18_21_use_256_bits:
  "entropyBits 15 = 256 \<and> entropyBits 18 = 256 \<and> entropyBits 21 = 256 \<and>
   bip39_word_count (entropyBits 15) = 24 \<and>
   bip39_word_count (entropyBits 18) = 24 \<and>
   bip39_word_count (entropyBits 21) = 24 \<and>
   generateMnemonic L 15 = generateMnemonic L 24 \<and>
   generateMnemonic L 18 = generateMnemonic L 24 \<and>
   generateMnemonic L 21 = generateMnemonic L 24 \<and>
   generateMnemonic L 15 =
     catch_crypto ''Failed to generate mnemonic'' (lib_call (bip39_generate L 256))"
  by (simp add: entropyBits_def ENTROPY_BITS_24_def bip39_word_count_def generateMnemonic_def
      SUPPORTED_WORD_COUNTS_def)

lemma supported_word_counts_12_24:
  "entropyBits 12 = 128 \<and> bip39_word_count (entropyBits 12) = 12 \<and>
   entropyBits 24 = 256 \<and> bip39_word_count (entropyBits 24) = 24"
  by (simp add: entropyBits_def ENTROPY_BITS_12_def ENTROPY_BITS_24_def bip39_word_count_def)

section \<open>Concrete instances\<close>

text \<open>The address theorem at the stand-in library, on testnet4.\<close>

theorem generated_address_validates_witness:
  "generateAddress stub_scure ex_mnemonic testnet4 0 =
     Inr (p2tr_address testnet4 (drop 1 pubkey_one)) \<and>
   validateAddress testnet4 (p2tr_address testnet4 (drop 1 pubkey_one)) = valid_as testnet4 p2tr"
proof -
  have v: "bip39_validate stub_scure ex_mnemonic" by code_simp
  have t: "taproot_tweak stub_scure (drop (Suc 0) pubkey_one) = Some (drop (Suc 0) pubkey_one)"
    by (simp add: stub_scure_def pubkey_one_def)
  have h: "hd_derive stub_scure ex_mnemonic (bip86_children 0) = Some (Some key_one, Some pubkey_one)"
    by (simp add: stub_scure_def)
  have g: "generateAddress stub_scure ex_mnemonic testnet4 0 =
     Inr (p2tr_address testnet4 (drop 1 pubkey_one))"
    by (simp add: generateAddress_def derive_bundle_def catch_crypto_def lib_call_def
        v t h Let_def p2tr_address_nonempty)
  have l: "length q = 32" if "taproot_tweak stub_scure x = Some q" for x q
    using that by (simp add: stub_scure_def split: if_splits)
  from generated_address_validates [OF g l] g show ?thesis by simp
qed

text \<open>Two different addresses with the same first 32 bytes.\<close>

theorem script_depends_only_on_prefix_witness:
  "same_script_prefix ex_address ex_address2 \<and> ex_address \<noteq> ex_address2 \<and>
   createScriptPubKey stub_scure ex_address2 mainnet =
     Inr (projr (createScriptPubKey stub_scure ex_address testnet)) \<and>
   createSimpleTransaction stub_scure testnet
       (simple_with ex_address ex_address2 (ex_simple [5000] [546] None)) =
     Inr (projr (createSimpleTransaction stub_scure testnet (ex_simple [5000] [546] None))) \<and>
   createMiningTransaction stub_scure testnet
       (mining_with ex_address ex_address2 (ex_mining 5000 None)) =
     Inr (projr (createMiningTransaction stub_scure testnet (ex_mining 5000 None)))"
proof -
  have h: "same_script_prefix ex_address ex_address2" by code_simp
  have d: "ex_address \<noteq> ex_address2" by code_simp
  have s: "\<not> isl (createScriptPubKey stub_scure ex_address testnet)" by code_simp
  have c: "\<not> isl (createSimpleTransaction stub_scure testnet (ex_simple [5000] [546] None))"
    by code_simp
  have m: "\<not> isl (createMiningTransaction stub_scure testnet (ex_mining 5000 None))"
    by code_simp
  from script_depends_only_on_prefix [OF h, of stub_scure testnet
      "projr (createScriptPubKey stub_scure ex_address testnet)" mainnet testnet
      "ex_simple [5000] [546] None"
      "projr (createSimpleTransaction stub_scure testnet (ex_simple [5000] [546] None))"
      testnet "ex_mining 5000 None"
      "projr (createMiningTransaction stub_scure testnet (ex_mining 5000 None))"]
    h d s c m
  show ?thesis by simp
qed

section \<open>What validation does reject, and when change is emitted\<close>

lemma validate_outputs_rejects:
  "\<exists>out \<in> set os. out_amount out < 546 \<Longrightarrow> \<exists>m. validate_outputs os = Inl (ValidationError m)"
  by (induction os) (auto simp: DUST_THRESHOLD_def)

lemma validateSimpleParams_rejects:
  assumes "(\<exists>out \<in> set (s_outputs p). out_amount out < 546) \<or>
           (\<exists>r. s_feeRate p = Some r \<and> r \<noteq> 0 \<and> (r < 1 \<or> 1000 < r))"
  shows "\<exists>m. validateSimpleParams p = Inl (ValidationError m)"
proof -
  have "validateSimpleParams p \<noteq> Inr ()"
  proof
    assume ok: "validateSimpleParams p = Inr ()"
    then have "validate_outputs (s_outputs p) = Inr ()"
      by (auto simp: validateSimpleParams_def bindE_eq_Inr split: if_splits)
    moreover from ok have "\<not> feeRate_rejected (s_feeRate p)"
      by (rule validateSimpleParams_feeRate)
    ultimately show False
      using assms validate_outputs_rejects [of "s_outputs p"]
      by (auto simp: feeRate_rejected_def MIN_FEE_RATE_def MAX_FEE_RATE_def)
  qed
  then obtain e where e: "validateSimpleParams p = Inl e"
    by (cases "validateSimpleParams p") auto
  from validateSimpleParams_kind [OF e] e show ?thesis
    by (cases e) auto
qed

lemma validateMiningParams_rejects:
  assumes "utxo_amount (m_utxo q) < 1000 \<or> length (md_hash (m_miningData q)) < 32 \<or>
           md_nonce (m_miningData q) < 0 \<or>
           (\<exists>r. m_feeRate q = Some r \<and> r \<noteq> 0 \<and> (r < 1 \<or> 1000 < r))"
  shows "\<exists>m. validateMiningParams q = Inl (ValidationError m)"
  using assms
  by (auto simp: validateMiningParams_def Let_def MIN_UTXO_AMOUNT_def feeRate_rejected_def
      MIN_FEE_RATE_def MAX_FEE_RATE_def)

lemma rejected_params_build_nothing:
  "validateSimpleParams p = Inl (ValidationError m) \<Longrightarrow>
     createSimpleTransaction L net p = Inl (ValidationError m)"
  "validateMiningParams q = Inl (ValidationError m) \<Longrightarrow>
     createMiningTransaction L net q = Inl (ValidationError m)"
  by (simp_all add: createSimpleTransaction_def buildSimpleTx_def createMiningTransaction_def
      buildMiningTx_def rethrow_def)

lemma simple_change_output_only_above_dust:
  assumes "createSimpleTransaction L net p = Inr tx"
  shows "length (tx_outputs tx) = length (s_outputs p) + (if simpleChangeAmount p > 546 then 1 else 0)"
proof -
  from buildSimpleTx_Inr(4) [OF createSimpleTransaction_Inr [OF assms]]
  have "length (map to_amount (tx_outputs tx)) =
        length (map out_amount (s_outputs p) @
           (if simpleChangeAmount p > DUST_THRESHOLD then [simpleChangeAmount p] else []))"
    by simp
  then show ?thesis by (simp add: DUST_THRESHOLD_def)
qed

text \<open>The simple payments of the concrete runs above are in the exact range.\<close>

lemma concrete_payments_in_exact_range:
  "exact_range (ex_simple [2622] [546] None) \<and>
   exact_range (ex_simple [999] [546] (Some 1)) \<and>
   exact_range (ex_simple [2000] [546] (Some 0)) \<and>
   exact_range (ex_simple [5000] [546] None)"
  by code_simp

end
